theory Spec2Isabelle
  imports Main
begin

section \<open>Thrown values\<close>

text \<open>
  The controller throws and catches JavaScript values. A thrown value is modelled by its
  class and its \<open>message\<close> property, the only property the handler of
  \<^verbatim>\<open>createInstance\<close> reads (\<^verbatim>\<open>error.message[0]\<close>, line 568). The message is an
  array (the exception classes of this repository), a string (a native \<^verbatim>\<open>Error\<close>)
  or absent.
\<close>

datatype exn_class = BadRequest | InternalServerError | TypeError | Foreign

datatype message = Arr "string option list" | Str string | NoMessage

datatype exn = Exn (cls: exn_class) (message: message)

text \<open>
  Modelled from the spec: the classes of \<^verbatim>\<open>../../exceptions\<close> are not among the
  sources. Section 7 has caller-input errors surfaced verbatim, and the handler at line
  568 rethrows \<^verbatim>\<open>error.message[0]\<close>; so an exception built from one argument carries
  the one-element array of that argument.
\<close>

definition BadRequestException :: "string option \<Rightarrow> exn" where
  "BadRequestException m = Exn BadRequest (Arr [m])"


text \<open>Reading a property of \<^verbatim>\<open>undefined\<close> raises a native TypeError; the wording of
  its message is the engine's.\<close>

definition TypeError_undefined :: "string \<Rightarrow> exn" where
  "TypeError_undefined p =
     Exn TypeError
       (Str (''Cannot read properties of undefined (reading '' @ [CHR 0x27] @ p @ [CHR 0x27]
             @ '')''))"

text \<open>\<^verbatim>\<open>error.message[0]\<close>: raises when the message is absent, is \<^verbatim>\<open>undefined\<close>
  (\<open>None\<close>) on an empty array or string, the first element of an array, the first
  character of a string.\<close>

definition message0 :: "exn \<Rightarrow> exn + string option" where
  "message0 error =
     (case message error of
        NoMessage \<Rightarrow> Inl (TypeError_undefined ''0'')
      | Arr ms \<Rightarrow> (case ms of [] \<Rightarrow> Inr None | m # _ \<Rightarrow> Inr m)
      | Str t \<Rightarrow> (case t of [] \<Rightarrow> Inr None | c # _ \<Rightarrow> Inr (Some [c])))"

section \<open>JavaScript truthiness and defaults\<close>

text \<open>An optional field of the request is \<open>None\<close> when it is \<^verbatim>\<open>undefined\<close>.\<close>

definition truthy_str :: "string option \<Rightarrow> bool" where
  "truthy_str v = (case v of None \<Rightarrow> False | Some t \<Rightarrow> t \<noteq> [])"

definition truthy_bool :: "bool option \<Rightarrow> bool" where
  "truthy_bool v = (case v of None \<Rightarrow> False | Some b \<Rightarrow> b)"

text \<open>\<^verbatim>\<open>v || false\<close>, \<^verbatim>\<open>v || ''\<close>, \<^verbatim>\<open>v ?? d\<close> and \<^verbatim>\<open>v || 60\<close>.\<close>

definition or_false :: "bool option \<Rightarrow> bool" where
  "or_false v = (case v of None \<Rightarrow> False | Some b \<Rightarrow> b)"

definition or_empty :: "string option \<Rightarrow> string" where
  "or_empty v = (case v of None \<Rightarrow> [] | Some t \<Rightarrow> t)"

definition nullish :: "'a option \<Rightarrow> 'a \<Rightarrow> 'a" where
  "nullish v d = (case v of None \<Rightarrow> d | Some x \<Rightarrow> x)"

definition or_num :: "int option \<Rightarrow> int \<Rightarrow> int" where
  "or_num v d = (case v of None \<Rightarrow> d | Some n \<Rightarrow> if n = 0 then d else n)"

section \<open>The request, the instances and the registry\<close>

text \<open>\<^verbatim>\<open>InstanceDto\<close>, as \<^verbatim>\<open>createInstance\<close> destructures it (lines 48 to 87).\<close>

record InstanceDto =
  instanceName :: string
  webhook :: "string option"
  webhook_by_events :: "bool option"
  webhook_base64 :: "bool option"
  events :: "string list option"
  qrcode :: "bool option"
  number :: "string option"
  integration :: "string option"
  token :: "string option"
  chatwoot_account_id :: "string option"
  chatwoot_token :: "string option"
  chatwoot_url :: "string option"
  chatwoot_sign_msg :: "bool option"
  chatwoot_reopen_conversation :: "bool option"
  chatwoot_conversation_pending :: "bool option"
  chatwoot_import_contacts :: "bool option"
  chatwoot_import_messages :: "bool option"
  chatwoot_days_limit_import_messages :: "int option"
  reject_call :: "bool option"
  msg_call :: "string option"
  groups_ignore :: "bool option"
  always_online :: "bool option"
  read_messages :: "bool option"
  read_status :: "bool option"
  sync_full_history :: "bool option"
  websocket_enabled :: "bool option"
  websocket_events :: "string list option"
  rabbitmq_enabled :: "bool option"
  rabbitmq_events :: "string list option"
  sqs_enabled :: "bool option"
  sqs_events :: "string list option"
  typebot_url :: "string option"
  typebot :: "string option"
  typebot_expire :: "int option"
  typebot_keyword_finish :: "string option"
  typebot_delay_message :: "int option"
  typebot_unknown_message :: "string option"
  typebot_listening_from_me :: "bool option"

type_synonym qrcode = string

datatype service = BaileysStartupService | BusinessStartupService

text \<open>What the controller reads of an instance: its class, \<^verbatim>\<open>instanceName\<close>,
  \<^verbatim>\<open>connectionStatus?.state\<close> and \<^verbatim>\<open>qrCode\<close>.\<close>

record wa_instance =
  service :: service
  inst_name :: "string option"
  connectionStatus_state :: "string option"
  qrCode :: "qrcode option"

text \<open>
  Modelled from the spec: the constructors of the two session services are not among
  the sources. By sections 4.2 and 3 a session starts closed and has a QR artifact only
  while connecting.
\<close>

definition new_instance :: "service \<Rightarrow> wa_instance" where
  "new_instance k =
     \<lparr>service = k, inst_name = None, connectionStatus_state = Some ''close'', qrCode = None\<rparr>"

text \<open>The members of \<^verbatim>\<open>Events\<close> (of \<^verbatim>\<open>wa.types\<close>, not among the sources) that the
  controller names, at lines 124 and 697.\<close>

datatype Events = INSTANCE_CREATE | INSTANCE_DELETE

datatype LocalSettings = LocalSettings
  (s_reject_call: bool) (s_msg_call: string) (s_groups_ignore: bool) (s_always_online: bool)
  (s_read_messages: bool) (s_read_status: bool) (s_sync_full_history: bool)

text \<open>
  Every call the controller makes on a collaborator is recorded, with its arguments, in
  the order the calls are made; a call that throws is recorded too. The first argument is
  the name of the instance wherever the source passes the instance.
\<close>

datatype call =
    CheckDuplicateToken "string option"
  | SaveInstance "string option" string "string option" "string option"
  | SendDataWebhook string Events "string option"
  | DelInstanceTime string
  | GenerateHash string string "string option"
  | WebhookCreate string bool string "string list" "bool option" "bool option"
  | WebhookFind string
  | WebsocketCreate string bool "string list"
  | WebsocketFind string
  | RabbitmqCreate string bool "string list"
  | RabbitmqFind string
  | SqsCreate string bool "string list"
  | SqsFind string
  | TypebotCreate string bool string "string option" "int option" "string option"
      "int option" "string option" "bool option"
  | SettingsCreate string LocalSettings
  | IntegrationCreate string "string option" "string option" "string option"
  | ConnectToWhatsapp string "string option"
  | ChatwootCreate string bool string string string bool string "string option"
      bool bool bool bool int bool
  | RemoveRabbitmqQueues string
  | ClearCacheChatwoot string
  | LogoutInstance string
  | AuthFind string
  | Emit string string string

text \<open>\<^verbatim>\<open>logger.log(error)\<close>, \<^verbatim>\<open>logger.error(error)\<close> and
  \<^verbatim>\<open>logger.error(error.message[0])\<close>; the verbose lines are left out.\<close>

datatype log_entry = Log exn | LogError exn | LogErrorMessage "string option"

text \<open>The monitor: \<^verbatim>\<open>waMonitor.waInstances\<close>, and what the call did to the world.\<close>

record monitor =
  waInstances :: "string \<rightharpoonup> wa_instance"
  calls :: "call list"
  logged :: "log_entry list"

definition record_call :: "call \<Rightarrow> monitor \<Rightarrow> monitor" where
  "record_call c s = s\<lparr>calls := calls s @ [c]\<rparr>"

definition logger_log :: "exn \<Rightarrow> monitor \<Rightarrow> monitor" where
  "logger_log e s = s\<lparr>logged := logged s @ [Log e]\<rparr>"

definition logger_error :: "exn \<Rightarrow> monitor \<Rightarrow> monitor" where
  "logger_error e s = s\<lparr>logged := logged s @ [LogError e]\<rparr>"

section \<open>The collaborators\<close>

text \<open>
  The services, the engine, the configuration and the library functions are not among
  the sources; what they return is a parameter. A call is fallible (\<open>Some e\<close>: it throws
  \<open>e\<close>) where the source handles its failure in a block of its own or the spec names
  it as a source of errors of the operation: the duplicate-token check, saving the
  instance, the channel services, the engine's connect and logout, and the cleanup steps
  of deletion. Logging, hashing, the settings and integration stores, the configuration
  and the event emitter are taken to return.

  Modelled from the spec: by section 4.3 \<open>configure\<close> persists the configuration it is
  given, so a \<^verbatim>\<open>find\<close> that returns, right after the \<^verbatim>\<open>create\<close> of the same instance,
  yields the event list just stored.
\<close>

record env =
  auth_checkDuplicateToken :: "string option \<Rightarrow> exn option"
  auth_generateHash :: "string \<Rightarrow> string \<Rightarrow> string option \<Rightarrow> string"
  monitor_saveInstance :: "string \<Rightarrow> exn option"
  WHATSAPP_BUSINESS :: string
  v4 :: string
  isURL :: "string \<Rightarrow> bool"
  encodeURIComponent :: "string \<Rightarrow> string"
  error_toString :: "exn \<Rightarrow> string"
  SERVER_URL :: string
  WA_BUSINESS_WEBHOOK_TEST :: "string option"
  WA_BUSINESS_TOKEN_WEBHOOK :: string
  webhookService_create :: "exn option"
  webhookService_find :: "exn option"
  websocketService_create :: "exn option"
  websocketService_find :: "exn option"
  rabbitmqService_create :: "exn option"
  rabbitmqService_find :: "exn option"
  sqsService_create :: "exn option"
  sqsService_find :: "exn option"
  typebotService_create :: "exn option"
  chatwootService_create :: "exn option"
  instance_connectToWhatsapp :: "wa_instance \<Rightarrow> string option \<Rightarrow> exn + wa_instance"
  instance_removeRabbitmqQueues :: "wa_instance \<Rightarrow> exn option"
  instance_clearCacheChatwoot :: "wa_instance \<Rightarrow> exn option"
  instance_logoutInstance :: "wa_instance \<Rightarrow> exn option"
  instance_sendDataWebhook :: "wa_instance \<Rightarrow> exn option"
  auth_find :: "string \<Rightarrow> exn + string option"

section \<open>The result of createInstance\<close>

datatype instance_info = InstanceInfo
  (r_instanceName: "string option") (r_instanceId: string) (r_integration: "string option")
  (r_webhook_wa_business: "string option") (r_access_token_wa_business: string)
  (r_status: string)

datatype webhook_info = WebhookInfo
  (r_webhook: "string option") (r_webhook_by_events: "bool option")
  (r_webhook_base64: "bool option") (r_webhook_events: "string list option")

datatype channel_info = ChannelInfo (r_enabled: "bool option") (r_events: "string list option")

datatype typebot_info = TypebotInfo
  (r_typebot_enabled: bool) (r_typebot_url: "string option") (r_typebot: "string option")
  (r_expire: "int option") (r_keyword_finish: "string option") (r_delay_message: "int option")
  (r_unknown_message: "string option") (r_listening_from_me: "bool option")

datatype chatwoot_info = ChatwootInfo
  (r_cw_enabled: bool) (r_account_id: string) (r_cw_token: string) (r_cw_url: string)
  (r_sign_msg: bool) (r_reopen_conversation: bool) (r_conversation_pending: bool)
  (r_import_contacts: bool) (r_import_messages: bool) (r_days_limit_import_messages: int)
  (r_number: "string option") (r_name_inbox: "string option") (r_webhook_url: string)

text \<open>The two objects returned at lines 414 and 512: the first has the \<^verbatim>\<open>qrcode\<close>
  property (which may be \<^verbatim>\<open>undefined\<close>) and no \<^verbatim>\<open>chatwoot\<close>, the second the
  reverse.\<close>

record create_result =
  res_instance :: instance_info
  res_hash :: string
  res_webhook :: webhook_info
  res_websocket :: channel_info
  res_rabbitmq :: channel_info
  res_sqs :: channel_info
  res_typebot :: typebot_info
  res_settings :: LocalSettings
  res_qrcode :: "qrcode option"
  res_chatwoot :: "chatwoot_info option"

section \<open>createInstance\<close>

text \<open>The event lists written out at lines 156, 208, 257 and 306.\<close>

definition webhook_default_events :: "string list" where
  "webhook_default_events =
    [''APPLICATION_STARTUP'', ''QRCODE_UPDATED'', ''MESSAGES_SET'', ''MESSAGES_UPSERT'',
     ''MESSAGES_UPDATE'', ''MESSAGES_DELETE'', ''SEND_MESSAGE'', ''CONTACTS_SET'',
     ''CONTACTS_UPSERT'', ''CONTACTS_UPDATE'', ''PRESENCE_UPDATE'', ''CHATS_SET'',
     ''CHATS_UPSERT'', ''CHATS_UPDATE'', ''CHATS_DELETE'', ''GROUPS_UPSERT'',
     ''GROUP_UPDATE'', ''GROUP_PARTICIPANTS_UPDATE'', ''CONNECTION_UPDATE'', ''LABELS_EDIT'',
     ''LABELS_ASSOCIATION'', ''CALL'', ''NEW_JWT_TOKEN'', ''TYPEBOT_START'',
     ''TYPEBOT_CHANGE_STATUS'', ''CHAMA_AI_ACTION'']"

definition websocket_default_events :: "string list" where
  "websocket_default_events =
    [''APPLICATION_STARTUP'', ''QRCODE_UPDATED'', ''MESSAGES_SET'', ''MESSAGES_UPSERT'',
     ''MESSAGES_UPDATE'', ''MESSAGES_DELETE'', ''SEND_MESSAGE'', ''CONTACTS_SET'',
     ''CONTACTS_UPSERT'', ''CONTACTS_UPDATE'', ''PRESENCE_UPDATE'', ''CHATS_SET'',
     ''CHATS_UPSERT'', ''CHATS_UPDATE'', ''CHATS_DELETE'', ''GROUPS_UPSERT'',
     ''GROUP_UPDATE'', ''GROUP_PARTICIPANTS_UPDATE'', ''CONNECTION_UPDATE'', ''LABELS_EDIT'',
     ''LABELS_ASSOCIATION'', ''CALL'', ''NEW_JWT_TOKEN'', ''TYPEBOT_START'',
     ''TYPEBOT_CHANGE_STATUS'', ''CHAMA_AI_ACTION'']"

definition rabbitmq_default_events :: "string list" where
  "rabbitmq_default_events =
    [''APPLICATION_STARTUP'', ''QRCODE_UPDATED'', ''MESSAGES_SET'', ''MESSAGES_UPSERT'',
     ''MESSAGES_UPDATE'', ''MESSAGES_DELETE'', ''SEND_MESSAGE'', ''CONTACTS_SET'',
     ''CONTACTS_UPSERT'', ''CONTACTS_UPDATE'', ''PRESENCE_UPDATE'', ''CHATS_SET'',
     ''CHATS_UPSERT'', ''CHATS_UPDATE'', ''CHATS_DELETE'', ''GROUPS_UPSERT'',
     ''GROUP_UPDATE'', ''GROUP_PARTICIPANTS_UPDATE'', ''CONNECTION_UPDATE'', ''LABELS_EDIT'',
     ''LABELS_ASSOCIATION'', ''CALL'', ''NEW_JWT_TOKEN'', ''TYPEBOT_START'',
     ''TYPEBOT_CHANGE_STATUS'', ''CHAMA_AI_ACTION'']"

definition sqs_default_events :: "string list" where
  "sqs_default_events =
    [''APPLICATION_STARTUP'', ''QRCODE_UPDATED'', ''MESSAGES_SET'', ''MESSAGES_UPSERT'',
     ''MESSAGES_UPDATE'', ''MESSAGES_DELETE'', ''SEND_MESSAGE'', ''CONTACTS_SET'',
     ''CONTACTS_UPSERT'', ''CONTACTS_UPDATE'', ''PRESENCE_UPDATE'', ''CHATS_SET'',
     ''CHATS_UPSERT'', ''CHATS_UPDATE'', ''CHATS_DELETE'', ''GROUPS_UPSERT'',
     ''GROUP_UPDATE'', ''GROUP_PARTICIPANTS_UPDATE'', ''CONNECTION_UPDATE'', ''LABELS_EDIT'',
     ''LABELS_ASSOCIATION'', ''CALL'', ''NEW_JWT_TOKEN'', ''TYPEBOT_START'',
     ''TYPEBOT_CHANGE_STATUS'', ''CHAMA_AI_ACTION'']"

text \<open>
  Lines 147 to 199. The URL check stands before the \<^verbatim>\<open>try\<close>: its exception leaves the
  block. Inside the \<^verbatim>\<open>try\<close> every exception is logged and the block ends with
  \<^verbatim>\<open>webhookEvents\<close> undefined.
\<close>

definition webhook_block ::
  "env \<Rightarrow> InstanceDto \<Rightarrow> monitor \<Rightarrow> (exn + string list option) \<times> monitor" where
  "webhook_block env dto s =
    (case webhook dto of
       None \<Rightarrow> (Inr None, s)
     | Some w \<Rightarrow>
        if w = [] then (Inr None, s)
        else if \<not> isURL env w
        then (Inl (BadRequestException (Some ''Invalid \"url\" property in webhook'')), s)
        else
          (let newEvents =
                 (case events dto of
                    None \<Rightarrow> webhook_default_events
                  | Some es \<Rightarrow> if length es = 0 then webhook_default_events else es);
               s1 = record_call
                      (WebhookCreate (instanceName dto) True w newEvents
                         (webhook_by_events dto) (webhook_base64 dto)) s
           in case webhookService_create env of
                Some e \<Rightarrow> (Inr None, logger_log e s1)
              | None \<Rightarrow>
                 (let s2 = record_call (WebhookFind (instanceName dto)) s1
                  in case webhookService_find env of
                       Some e \<Rightarrow> (Inr None, logger_log e s2)
                     | None \<Rightarrow> (Inr (Some newEvents), s2))))"

text \<open>
  Lines 203 to 248, 252 to 297 and 301 to 346 are one block written three times, for the
  websocket, rabbitmq and sqs services. The whole block is inside the \<^verbatim>\<open>try\<close>;
  \<^verbatim>\<open>.length\<close> of an omitted list raises the TypeError there.
\<close>

definition channel_block ::
  "bool option \<Rightarrow> string list option \<Rightarrow> string list \<Rightarrow> (string list \<Rightarrow> call) \<Rightarrow> call \<Rightarrow>
   exn option \<Rightarrow> exn option \<Rightarrow> monitor \<Rightarrow> string list option \<times> monitor" where
  "channel_block enabled evs default_events create_call find_call create_throws find_throws s =
    (if truthy_bool enabled then
       (case evs of
          None \<Rightarrow> (None, logger_log (TypeError_undefined ''length'') s)
        | Some es \<Rightarrow>
           (let newEvents = (if length es = 0 then default_events else es);
                s1 = record_call (create_call newEvents) s
            in case create_throws of
                 Some e \<Rightarrow> (None, logger_log e s1)
               | None \<Rightarrow>
                  (let s2 = record_call find_call s1
                   in case find_throws of
                        Some e \<Rightarrow> (None, logger_log e s2)
                      | None \<Rightarrow> (Some newEvents, s2))))
     else (None, s))"

definition websocket_block :: "env \<Rightarrow> InstanceDto \<Rightarrow> monitor \<Rightarrow> string list option \<times> monitor" where
  "websocket_block env dto s =
     channel_block (websocket_enabled dto) (websocket_events dto) websocket_default_events
       (WebsocketCreate (instanceName dto) True) (WebsocketFind (instanceName dto))
       (websocketService_create env) (websocketService_find env) s"

definition rabbitmq_block :: "env \<Rightarrow> InstanceDto \<Rightarrow> monitor \<Rightarrow> string list option \<times> monitor" where
  "rabbitmq_block env dto s =
     channel_block (rabbitmq_enabled dto) (rabbitmq_events dto) rabbitmq_default_events
       (RabbitmqCreate (instanceName dto) True) (RabbitmqFind (instanceName dto))
       (rabbitmqService_create env) (rabbitmqService_find env) s"

definition sqs_block :: "env \<Rightarrow> InstanceDto \<Rightarrow> monitor \<Rightarrow> string list option \<times> monitor" where
  "sqs_block env dto s =
     channel_block (sqs_enabled dto) (sqs_events dto) sqs_default_events
       (SqsCreate (instanceName dto) True) (SqsFind (instanceName dto))
       (sqsService_create env) (sqsService_find env) s"

text \<open>Lines 348 to 369. Here the URL check is inside the \<^verbatim>\<open>try\<close>: its exception is
  logged like any other.\<close>

definition typebot_block :: "env \<Rightarrow> InstanceDto \<Rightarrow> monitor \<Rightarrow> monitor" where
  "typebot_block env dto s =
    (case typebot_url dto of
       None \<Rightarrow> s
     | Some u \<Rightarrow>
        if u = [] then s
        else if \<not> isURL env u
        then logger_log (BadRequestException (Some ''Invalid \"url\" property in typebot_url'')) s
        else
          (let s1 = record_call
                      (TypebotCreate (instanceName dto) True u (typebot dto) (typebot_expire dto)
                         (typebot_keyword_finish dto) (typebot_delay_message dto)
                         (typebot_unknown_message dto) (typebot_listening_from_me dto)) s
           in case typebotService_create env of
                Some e \<Rightarrow> logger_log e s1
              | None \<Rightarrow> s1))"

text \<open>Lines 372 to 380.\<close>

definition local_settings :: "InstanceDto \<Rightarrow> LocalSettings" where
  "local_settings dto =
     LocalSettings (or_false (reject_call dto)) (or_empty (msg_call dto))
       (nullish (groups_ignore dto) True) (or_false (always_online dto))
       (or_false (read_messages dto)) (or_false (read_status dto))
       (nullish (sync_full_history dto) False)"

definition is_business :: "env \<Rightarrow> InstanceDto \<Rightarrow> bool" where
  "is_business env dto = (integration dto = Some (WHATSAPP_BUSINESS env))"

text \<open>Lines 386 to 397: \<^verbatim>\<open>webhook_wa_business\<close> (\<open>None\<close> is \<^verbatim>\<open>null\<close>) and
  \<^verbatim>\<open>access_token_wa_business\<close>.\<close>

definition wa_business_block :: "env \<Rightarrow> InstanceDto \<Rightarrow> exn + (string option \<times> string)" where
  "wa_business_block env dto =
    (if is_business env dto then
       (if \<not> truthy_str (number dto)
        then Inl (BadRequestException (Some ''number is required''))
        else Inr (Some ((if truthy_str (WA_BUSINESS_WEBHOOK_TEST env)
                         then or_empty (WA_BUSINESS_WEBHOOK_TEST env) else SERVER_URL env)
                        @ ''/webhook/whatsapp''),
                  WA_BUSINESS_TOKEN_WEBHOOK env))
     else Inr (None, []))"

text \<open>The properties the two returned objects share (lines 415 to 452 and 513 to 550).\<close>

definition result_of ::
  "InstanceDto \<Rightarrow> wa_instance \<Rightarrow> string \<Rightarrow> string option \<times> string \<Rightarrow> string \<Rightarrow>
   string list option \<Rightarrow> string list option \<Rightarrow> string list option \<Rightarrow> string list option \<Rightarrow>
   qrcode option \<Rightarrow> chatwoot_info option \<Rightarrow> create_result" where
  "result_of dto inst instanceId wa hash webhookEvents websocketEvents rabbitmqEvents sqsEvents
     qr cw =
    \<lparr>res_instance =
       InstanceInfo (inst_name inst) instanceId (integration dto) (fst wa) (snd wa) ''created'',
     res_hash = hash,
     res_webhook =
       WebhookInfo (webhook dto) (webhook_by_events dto) (webhook_base64 dto) webhookEvents,
     res_websocket = ChannelInfo (websocket_enabled dto) websocketEvents,
     res_rabbitmq = ChannelInfo (rabbitmq_enabled dto) rabbitmqEvents,
     res_sqs = ChannelInfo (sqs_enabled dto) sqsEvents,
     res_typebot =
       TypebotInfo (truthy_str (typebot_url dto)) (typebot_url dto) (typebot dto)
         (typebot_expire dto) (typebot_keyword_finish dto) (typebot_delay_message dto)
         (typebot_unknown_message dto) (typebot_listening_from_me dto),
     res_settings = local_settings dto,
     res_qrcode = qr,
     res_chatwoot = cw\<rparr>"

text \<open>\<^verbatim>\<open>name.split('-cwId-')[0]\<close>: the text before the first occurrence of the
  separator, the whole text when there is none.\<close>

fun before_sep :: "string \<Rightarrow> string \<Rightarrow> string" where
  "before_sep sep [] = []"
| "before_sep sep (c # cs) =
     (if sep \<noteq> [] \<and> take (length sep) (c # cs) = sep then [] else c # before_sep sep cs)"

text \<open>
  Lines 404 to 460: taken when one of the three chatwoot fields is missing or empty.
  The engine's \<^verbatim>\<open>connectToWhatsapp\<close> changes the instance object the registry holds;
  its exception is not caught here.
\<close>

definition return_without_chatwoot ::
  "env \<Rightarrow> InstanceDto \<Rightarrow> wa_instance \<Rightarrow> (qrcode option \<Rightarrow> chatwoot_info option \<Rightarrow> create_result) \<Rightarrow>
   monitor \<Rightarrow> (exn + create_result) \<times> monitor" where
  "return_without_chatwoot env dto inst mk s =
    (if truthy_bool (qrcode dto) then
       (let s1 = record_call (ConnectToWhatsapp (instanceName dto) (number dto)) s
        in case instance_connectToWhatsapp env inst (number dto) of
             Inl e \<Rightarrow> (Inl e, s1)
           | Inr inst' \<Rightarrow>
               (Inr (mk (qrCode inst') None),
                s1\<lparr>waInstances := (waInstances s1)(instanceName dto \<mapsto> inst')\<rparr>))
     else (Inr (mk None None), s))"

text \<open>Lines 462 to 566: the checks of the chatwoot fields, the configuration (its
  exception is logged) and the second returned object.\<close>

definition configure_chatwoot ::
  "env \<Rightarrow> InstanceDto \<Rightarrow> wa_instance \<Rightarrow> (qrcode option \<Rightarrow> chatwoot_info option \<Rightarrow> create_result) \<Rightarrow>
   monitor \<Rightarrow> (exn + create_result) \<times> monitor" where
  "configure_chatwoot env dto inst mk s =
    (case chatwoot_account_id dto of
       None \<Rightarrow> (Inl (BadRequestException (Some ''account_id is required'')), s)
     | Some account_id \<Rightarrow>
    if account_id = [] then (Inl (BadRequestException (Some ''account_id is required'')), s)
    else
    (case chatwoot_token dto of
       None \<Rightarrow> (Inl (BadRequestException (Some ''token is required'')), s)
     | Some cw_token \<Rightarrow>
    if cw_token = [] then (Inl (BadRequestException (Some ''token is required'')), s)
    else
    (case chatwoot_url dto of
       None \<Rightarrow> (Inl (BadRequestException (Some ''url is required'')), s)
     | Some url \<Rightarrow>
    if url = [] then (Inl (BadRequestException (Some ''url is required'')), s)
    else if \<not> isURL env url
    then (Inl (BadRequestException (Some ''Invalid \"url\" property in chatwoot'')), s)
    else if chatwoot_sign_msg dto = None
    then (Inl (BadRequestException (Some ''sign_msg is required'')), s)
    else if chatwoot_reopen_conversation dto = None
    then (Inl (BadRequestException (Some ''reopen_conversation is required'')), s)
    else if chatwoot_conversation_pending dto = None
    then (Inl (BadRequestException (Some ''conversation_pending is required'')), s)
    else
      (let s1 = record_call
                  (ChatwootCreate (instanceName dto) True account_id cw_token url
                     (or_false (chatwoot_sign_msg dto))
                     (before_sep ''-cwId-'' (or_empty (inst_name inst)))
                     (number dto)
                     (or_false (chatwoot_reopen_conversation dto))
                     (or_false (chatwoot_conversation_pending dto))
                     (nullish (chatwoot_import_contacts dto) True)
                     (nullish (chatwoot_import_messages dto) True)
                     (nullish (chatwoot_days_limit_import_messages dto) 60)
                     True) s;
           s2 = (case chatwootService_create env of
                   Some e \<Rightarrow> logger_log e s1
                 | None \<Rightarrow> s1)
       in (Inr (mk None
                 (Some (ChatwootInfo True account_id cw_token url
                          (or_false (chatwoot_sign_msg dto))
                          (or_false (chatwoot_reopen_conversation dto))
                          (or_false (chatwoot_conversation_pending dto))
                          (nullish (chatwoot_import_contacts dto) True)
                          (nullish (chatwoot_import_messages dto) True)
                          (or_num (chatwoot_days_limit_import_messages dto) 60)
                          (number dto)
                          (inst_name inst)
                          (SERVER_URL env @ ''/chatwoot/webhook/''
                             @ encodeURIComponent env (or_empty (inst_name inst)))))),
           s2)))))"

text \<open>Lines 145 to 566, from the webhook block on.\<close>

definition configure_and_return ::
  "env \<Rightarrow> InstanceDto \<Rightarrow> wa_instance \<Rightarrow> string \<Rightarrow> string \<Rightarrow> monitor \<Rightarrow>
   (exn + create_result) \<times> monitor" where
  "configure_and_return env dto inst instanceId hash s =
    (case webhook_block env dto s of
       (Inl e, s1) \<Rightarrow> (Inl e, s1)
     | (Inr webhookEvents, s1) \<Rightarrow>
        (case websocket_block env dto s1 of (websocketEvents, s2) \<Rightarrow>
        (case rabbitmq_block env dto s2 of (rabbitmqEvents, s3) \<Rightarrow>
        (case sqs_block env dto s3 of (sqsEvents, s4) \<Rightarrow>
          (let s5 = typebot_block env dto s4;
               s6 = record_call (SettingsCreate (instanceName dto) (local_settings dto)) s5
           in case wa_business_block env dto of
                Inl e \<Rightarrow> (Inl e, s6)
              | Inr wa \<Rightarrow>
                 (let s7 = record_call
                             (IntegrationCreate (instanceName dto) (integration dto)
                                (number dto) (token dto)) s6;
                      mk = result_of dto inst instanceId wa hash webhookEvents
                             websocketEvents rabbitmqEvents sqsEvents
                  in if \<not> truthy_str (chatwoot_account_id dto)
                        \<or> \<not> truthy_str (chatwoot_token dto)
                        \<or> \<not> truthy_str (chatwoot_url dto)
                     then return_without_chatwoot env dto inst mk s7
                     else configure_chatwoot env dto inst mk s7))))))"

text \<open>Lines 89 to 143: the body of the \<^verbatim>\<open>try\<close> up to the hash.\<close>

definition createInstance_try ::
  "env \<Rightarrow> InstanceDto \<Rightarrow> monitor \<Rightarrow> (exn + create_result) \<times> monitor" where
  "createInstance_try env dto s =
    (let s1 = record_call (CheckDuplicateToken (token dto)) s
     in case auth_checkDuplicateToken env (token dto) of
          Some e \<Rightarrow> (Inl e, s1)
        | None \<Rightarrow>
           if \<not> truthy_str (token dto) \<and> is_business env dto
           then (Inl (BadRequestException (Some ''token is required'')), s1)
           else
             (let inst0 = (if is_business env dto
                           then new_instance BusinessStartupService
                           else new_instance BaileysStartupService);
                  s2 = record_call
                         (SaveInstance (integration dto) (instanceName dto) (token dto)
                            (number dto)) s1
              in case monitor_saveInstance env (instanceName dto) of
                   Some e \<Rightarrow> (Inl e, s2)
                 | None \<Rightarrow>
                    (let inst = inst0\<lparr>inst_name := Some (instanceName dto)\<rparr>;
                         instanceId = v4 env;
                         s3 = record_call
                                (SendDataWebhook (instanceName dto) INSTANCE_CREATE
                                   (Some instanceId)) s2;
                         s4 = s3\<lparr>waInstances := (waInstances s3)(instanceName dto \<mapsto> inst)\<rparr>;
                         s5 = record_call (DelInstanceTime (instanceName dto)) s4;
                         s6 = record_call
                                (GenerateHash (instanceName dto) instanceId (token dto)) s5;
                         hash = auth_generateHash env (instanceName dto) instanceId (token dto)
                     in configure_and_return env dto inst instanceId hash s6)))"

text \<open>
  Lines 88 and 567 to 570: whatever the body throws is logged and thrown again as a
  BadRequestException of \<^verbatim>\<open>error.message[0]\<close>; when the thrown value has no message,
  reading its first element raises inside the handler.
\<close>

definition createInstance ::
  "env \<Rightarrow> InstanceDto \<Rightarrow> monitor \<Rightarrow> (exn + create_result) \<times> monitor" where
  "createInstance env dto s =
    (case createInstance_try env dto s of
       (Inr result, s') \<Rightarrow> (Inr result, s')
     | (Inl error, s') \<Rightarrow>
        (case message0 error of
           Inl type_error \<Rightarrow> (Inl type_error, s')
         | Inr m \<Rightarrow>
            (Inl (BadRequestException m), s'\<lparr>logged := logged s' @ [LogErrorMessage m]\<rparr>)))"

text \<open>
  \<^verbatim>\<open>waInstances\<close> is indexed as a plain object (lines 577, 642, 685, 705), so a read
  \<^verbatim>\<open>waInstances[name]\<close> yields the registered instance when the name is a property of
  its own, the inherited value when it is not but every object inherits a property of
  that name from \<^verbatim>\<open>Object.prototype\<close>, and \<^verbatim>\<open>undefined\<close> otherwise. The inherited
  values are functions (and the prototype itself, for \<^verbatim>\<open>__proto__\<close>): none is nullish,
  and none has a \<^verbatim>\<open>connectionStatus\<close> or a method of an instance. The map
  \<open>waInstances\<close> holds the properties of its own, which the assignment of line 131 and
  the \<^verbatim>\<open>delete\<close> of line 705 act on (for the name \<^verbatim>\<open>__proto__\<close> JavaScript's
  assignment sets the prototype instead; a read under that name then yields the
  instance all the same).
\<close>

definition Object_prototype_keys :: "string list" where
  "Object_prototype_keys =
     [''constructor'', ''__defineGetter__'', ''__defineSetter__'', ''hasOwnProperty'',
      ''__lookupGetter__'', ''__lookupSetter__'', ''isPrototypeOf'', ''propertyIsEnumerable'',
      ''toString'', ''valueOf'', ''__proto__'', ''toLocaleString'']"

datatype registry_value = Registered wa_instance | Inherited | Absent

definition registry_read :: "monitor \<Rightarrow> string \<Rightarrow> registry_value" where
  "registry_read s name =
     (case waInstances s name of
        Some instance \<Rightarrow> Registered instance
      | None \<Rightarrow> if name \<in> set Object_prototype_keys then Inherited else Absent)"


section \<open>connectionState and connectToWhatsapp\<close>

datatype state_info = StateInfo (st_instanceName: string) (st_state: "string option")

text \<open>Lines 637 to 645: \<^verbatim>\<open>waInstances[instanceName]?.connectionStatus?.state\<close>.\<close>

definition connectionState :: "string \<Rightarrow> monitor \<Rightarrow> state_info" where
  "connectionState name s =
     StateInfo name
       (case registry_read s name of
          Registered instance \<Rightarrow> connectionStatus_state instance
        | Inherited \<Rightarrow> None
        | Absent \<Rightarrow> None)"

text \<open>What \<^verbatim>\<open>connectToWhatsapp\<close> returns: \<^verbatim>\<open>undefined\<close> (after a caught exception, or
  an absent QR code), the connection state, the QR code, or the object of line 602.\<close>

datatype connect_result =
    Undefined
  | ConnectionStateInfo state_info
  | QrCode qrcode
  | StatusInfo string string "qrcode option"

definition qr_value :: "qrcode option \<Rightarrow> connect_result" where
  "qr_value q = (case q of None \<Rightarrow> Undefined | Some c \<Rightarrow> QrCode c)"

definition not_exist :: "string \<Rightarrow> exn" where
  "not_exist name =
     BadRequestException (Some (''The \"'' @ name @ ''\" instance does not exist''))"

text \<open>Lines 573 to 612. Every exception is caught and logged, and the call then returns
  \<^verbatim>\<open>undefined\<close>.\<close>

definition connectToWhatsapp ::
  "env \<Rightarrow> string \<Rightarrow> string option \<Rightarrow> monitor \<Rightarrow> connect_result \<times> monitor" where
  "connectToWhatsapp env name num s =
    (case registry_read s name of
       Absent \<Rightarrow> (Undefined, logger_error (not_exist name) s)
     | Inherited \<Rightarrow> (Undefined, logger_error (not_exist name) s)
     | Registered instance \<Rightarrow>
        (case connectionStatus_state instance of
           None \<Rightarrow> (Undefined, logger_error (not_exist name) s)
         | Some state \<Rightarrow>
            if state = [] then (Undefined, logger_error (not_exist name) s)
            else if state = ''open''
            then (ConnectionStateInfo (connectionState name s), s)
            else if state = ''connecting'' then (qr_value (qrCode instance), s)
            else if state = ''close'' then
              (let s1 = record_call (ConnectToWhatsapp name num) s
               in case instance_connectToWhatsapp env instance num of
                    Inl e \<Rightarrow> (Undefined, logger_error e s1)
                  | Inr instance' \<Rightarrow>
                      (qr_value (qrCode instance'),
                       s1\<lparr>waInstances := (waInstances s1)(name \<mapsto> instance')\<rparr>))
            else (StatusInfo name state (qrCode instance), s)))"

section \<open>logout and deleteInstance\<close>







section \<open>Concrete inputs\<close>

text \<open>
  A request that gives the name only, and one environment in which every collaborator
  returns: the engine's connect leaves the instance connecting with a QR code. The
  first test of \<^verbatim>\<open>isURL\<close> of class-validator rejects the empty text and every text
  that holds white space or an angle bracket; the environment's \<open>isURL\<close> is that
  test on ASCII characters, and the later tests of the library are left out. On the two
  texts the concrete calls below use it answers as the library does with
  \<^verbatim>\<open>require_tld: false\<close>: \<^verbatim>\<open>not a url\<close> is rejected, \<^verbatim>\<open>http://typebot\<close> is
  accepted.
\<close>

definition first_test_of_isURL :: "string \<Rightarrow> bool" where
  "first_test_of_isURL u =
     (u \<noteq> [] \<and> (\<forall>c \<in> set u. c \<notin> set [CHR '' '', CHR 0x09, CHR 0x0A, CHR 0x0B, CHR 0x0C,
                                         CHR 0x0D, CHR ''<'', CHR ''>'']))"

definition request :: "string \<Rightarrow> InstanceDto" where
  "request name =
    \<lparr>instanceName = name, webhook = None, webhook_by_events = None, webhook_base64 = None,
     events = None, qrcode = None, number = None, integration = None, token = None,
     chatwoot_account_id = None, chatwoot_token = None, chatwoot_url = None,
     chatwoot_sign_msg = None, chatwoot_reopen_conversation = None,
     chatwoot_conversation_pending = None, chatwoot_import_contacts = None,
     chatwoot_import_messages = None, chatwoot_days_limit_import_messages = None,
     reject_call = None, msg_call = None, groups_ignore = None, always_online = None,
     read_messages = None, read_status = None, sync_full_history = None,
     websocket_enabled = None, websocket_events = None, rabbitmq_enabled = None,
     rabbitmq_events = None, sqs_enabled = None, sqs_events = None, typebot_url = None,
     typebot = None, typebot_expire = None, typebot_keyword_finish = None,
     typebot_delay_message = None, typebot_unknown_message = None,
     typebot_listening_from_me = None\<rparr>"

definition engine_connects :: "wa_instance \<Rightarrow> string option \<Rightarrow> exn + wa_instance" where
  "engine_connects i n = Inr (i\<lparr>connectionStatus_state := Some ''connecting'', qrCode := Some ''QR''\<rparr>)"

definition quiet_env :: env where
  "quiet_env =
    \<lparr>auth_checkDuplicateToken = (\<lambda>t. None),
     auth_generateHash = (\<lambda>n i t. ''hash''),
     monitor_saveInstance = (\<lambda>n. None),
     WHATSAPP_BUSINESS = ''WHATSAPP-BUSINESS'',
     v4 = ''id-1'',
     isURL = first_test_of_isURL,
     encodeURIComponent = (\<lambda>u. u),
     error_toString = (\<lambda>e. ''Error''),
     SERVER_URL = ''http://localhost:8080'',
     WA_BUSINESS_WEBHOOK_TEST = None,
     WA_BUSINESS_TOKEN_WEBHOOK = ''evolution'',
     webhookService_create = None, webhookService_find = None,
     websocketService_create = None, websocketService_find = None,
     rabbitmqService_create = None, rabbitmqService_find = None,
     sqsService_create = None, sqsService_find = None,
     typebotService_create = None, chatwootService_create = None,
     instance_connectToWhatsapp = engine_connects,
     instance_removeRabbitmqQueues = (\<lambda>i. None),
     instance_clearCacheChatwoot = (\<lambda>i. None),
     instance_logoutInstance = (\<lambda>i. None),
     instance_sendDataWebhook = (\<lambda>i. None),
     auth_find = (\<lambda>n. Inr (Some ''id-1''))\<rparr>"

definition no_instances :: monitor where
  "no_instances = \<lparr>waInstances = Map.empty, calls = [], logged = []\<rparr>"

definition engine_error :: exn where
  "engine_error = Exn Foreign (Str ''Connection Failure'')"

definition dave :: wa_instance where
  "dave = \<lparr>service = BaileysStartupService, inst_name = Some ''dave'',
           connectionStatus_state = Some ''close'', qrCode = None\<rparr>"

definition dave_registered :: monitor where
  "dave_registered = \<lparr>waInstances = [''dave'' \<mapsto> dave], calls = [], logged = []\<rparr>"

text \<open>A registry that already holds an open business instance named alice; requests
  with one chatwoot field, with \<open>qrcode\<close> set and with a malformed webhook URL; an
  environment whose engine fails to connect.\<close>

definition alice_open :: monitor where
  "alice_open =
     \<lparr>waInstances = [''alice'' \<mapsto> \<lparr>service = BusinessStartupService, inst_name = Some ''alice'',
                                    connectionStatus_state = Some ''open'', qrCode = None\<rparr>],
      calls = [], logged = []\<rparr>"

definition carol_request :: InstanceDto where
  "carol_request = (request ''carol'')\<lparr>chatwoot_account_id := Some ''1''\<rparr>"

definition bob_qrcode :: InstanceDto where
  "bob_qrcode = (request ''bob'')\<lparr>qrcode := Some True\<rparr>"

definition engine_fails :: env where
  "engine_fails = quiet_env\<lparr>instance_connectToWhatsapp := (\<lambda>i n. Inl engine_error)\<rparr>"

definition bob_bad_webhook :: InstanceDto where
  "bob_bad_webhook = (request ''bob'')\<lparr>webhook := Some ''not a url''\<rparr>"

text \<open>An environment whose duplicate-token check throws the repository's exception;
  requests with a websocket and no event list, and with a malformed typebot URL.\<close>

definition duplicate_token :: env where
  "duplicate_token =
     quiet_env\<lparr>auth_checkDuplicateToken :=
       (\<lambda>t. Some (BadRequestException (Some ''Token already exists'')))\<rparr>"

definition bob_websocket :: InstanceDto where
  "bob_websocket = (request ''bob'')\<lparr>websocket_enabled := Some True\<rparr>"

definition bob_bad_typebot :: InstanceDto where
  "bob_bad_typebot = (request ''bob'')\<lparr>typebot_url := Some ''not a url''\<rparr>"

text \<open>A request with a typebot URL, one with a websocket and a typebot, and environments
  whose typebot service or websocket service throws.\<close>

definition bob_typebot :: InstanceDto where
  "bob_typebot = (request ''bob'')\<lparr>typebot_url := Some ''http://typebot''\<rparr>"

definition websocket_fails :: env where
  "websocket_fails = quiet_env\<lparr>websocketService_create := Some engine_error\<rparr>"

definition bob_channels :: InstanceDto where
  "bob_channels =
     (request ''bob'')\<lparr>websocket_enabled := Some True, websocket_events := Some [],
                       typebot_url := Some ''http://typebot''\<rparr>"

definition typebot_fails :: env where
  "typebot_fails = quiet_env\<lparr>typebotService_create := Some engine_error\<rparr>"

section \<open>Conditions on the request and the collaborators\<close>


text \<open>The instance as line 120 leaves it, before it is put into the registry.\<close>

definition created_instance :: "env \<Rightarrow> InstanceDto \<Rightarrow> wa_instance" where
  "created_instance env dto =
     (new_instance (if is_business env dto then BusinessStartupService
                    else BaileysStartupService))\<lparr>inst_name := Some (instanceName dto)\<rparr>"

text \<open>Lines 92 to 118 all pass: the token is not a duplicate, the business integration has
  its token, and saving the instance returns.\<close>

definition reaches_registration :: "env \<Rightarrow> InstanceDto \<Rightarrow> bool" where
  "reaches_registration env dto =
     (auth_checkDuplicateToken env (token dto) = None
      \<and> (truthy_str (token dto) \<or> \<not> is_business env dto)
      \<and> monitor_saveInstance env (instanceName dto) = None)"

text \<open>The collaborator calls of lines 92 to 141, in order.\<close>

definition registration_calls :: "env \<Rightarrow> InstanceDto \<Rightarrow> call list" where
  "registration_calls env dto =
     [CheckDuplicateToken (token dto),
      SaveInstance (integration dto) (instanceName dto) (token dto) (number dto),
      SendDataWebhook (instanceName dto) INSTANCE_CREATE (Some (v4 env)),
      DelInstanceTime (instanceName dto),
      GenerateHash (instanceName dto) (v4 env) (token dto)]"

text \<open>The check of line 148 does not throw.\<close>

definition webhook_accepted :: "env \<Rightarrow> InstanceDto \<Rightarrow> bool" where
  "webhook_accepted env dto =
     (case webhook dto of None \<Rightarrow> True | Some w \<Rightarrow> w = [] \<or> isURL env w)"

text \<open>The test of line 404 is false: the three chatwoot fields are all given.\<close>

definition chatwoot_complete :: "InstanceDto \<Rightarrow> bool" where
  "chatwoot_complete dto =
     (truthy_str (chatwoot_account_id dto) \<and> truthy_str (chatwoot_token dto)
      \<and> truthy_str (chatwoot_url dto))"

text \<open>At least one of the three chatwoot fields is given and at least one is not.\<close>

definition chatwoot_partial :: "InstanceDto \<Rightarrow> bool" where
  "chatwoot_partial dto =
     ((truthy_str (chatwoot_account_id dto) \<or> truthy_str (chatwoot_token dto)
        \<or> truthy_str (chatwoot_url dto))
      \<and> \<not> chatwoot_complete dto)"

text \<open>The checks of lines 474 to 488 pass.\<close>

definition chatwoot_fields_valid :: "env \<Rightarrow> InstanceDto \<Rightarrow> bool" where
  "chatwoot_fields_valid env dto =
     ((case chatwoot_url dto of None \<Rightarrow> False | Some u \<Rightarrow> isURL env u)
      \<and> chatwoot_sign_msg dto \<noteq> None
      \<and> chatwoot_reopen_conversation dto \<noteq> None
      \<and> chatwoot_conversation_pending dto \<noteq> None)"

text \<open>Execution reaches line 404.\<close>

definition reaches_chatwoot_test :: "env \<Rightarrow> InstanceDto \<Rightarrow> bool" where
  "reaches_chatwoot_test env dto =
     (reaches_registration env dto \<and> webhook_accepted env dto
      \<and> (truthy_str (number dto) \<or> \<not> is_business env dto))"

text \<open>Execution reaches line 409, the connect of the engine.\<close>

definition reaches_connect :: "env \<Rightarrow> InstanceDto \<Rightarrow> bool" where
  "reaches_connect env dto =
     (reaches_chatwoot_test env dto \<and> \<not> chatwoot_complete dto \<and> truthy_bool (qrcode dto))"

text \<open>The requests on which \<^verbatim>\<open>createInstance\<close> throws; no outcome of a channel service
  occurs in it.\<close>

definition createInstance_fails :: "env \<Rightarrow> InstanceDto \<Rightarrow> bool" where
  "createInstance_fails env dto =
     (if reaches_chatwoot_test env dto
      then if chatwoot_complete dto then \<not> chatwoot_fields_valid env dto
           else truthy_bool (qrcode dto)
                \<and> isl (instance_connectToWhatsapp env (created_instance env dto) (number dto))
      else True)"

text \<open>The instance the registry holds under the name once the call is over.\<close>

definition final_instance :: "env \<Rightarrow> InstanceDto \<Rightarrow> wa_instance" where
  "final_instance env dto =
     (if reaches_connect env dto
      then (case instance_connectToWhatsapp env (created_instance env dto) (number dto) of
              Inl e \<Rightarrow> created_instance env dto
            | Inr inst' \<Rightarrow> inst')
      else created_instance env dto)"

text \<open>The second monitor has every recorded call and every log entry of the first.\<close>

definition grows :: "monitor \<Rightarrow> monitor \<Rightarrow> bool" where
  "grows s s' = (set (calls s) \<subseteq> set (calls s') \<and> set (logged s) \<subseteq> set (logged s'))"

text \<open>The monitor after each block of lines 147 to 369, for a request that reaches the
  registration.\<close>

definition after_webhook :: "env \<Rightarrow> InstanceDto \<Rightarrow> monitor \<Rightarrow> monitor" where
  "after_webhook env dto s =
     snd (webhook_block env dto
            (s\<lparr>waInstances := (waInstances s)(instanceName dto \<mapsto> created_instance env dto),
               calls := calls s @ registration_calls env dto\<rparr>))"

definition after_websocket :: "env \<Rightarrow> InstanceDto \<Rightarrow> monitor \<Rightarrow> monitor" where
  "after_websocket env dto s = snd (websocket_block env dto (after_webhook env dto s))"

definition after_rabbitmq :: "env \<Rightarrow> InstanceDto \<Rightarrow> monitor \<Rightarrow> monitor" where
  "after_rabbitmq env dto s = snd (rabbitmq_block env dto (after_websocket env dto s))"

definition after_sqs :: "env \<Rightarrow> InstanceDto \<Rightarrow> monitor \<Rightarrow> monitor" where
  "after_sqs env dto s = snd (sqs_block env dto (after_rabbitmq env dto s))"

definition after_typebot :: "env \<Rightarrow> InstanceDto \<Rightarrow> monitor \<Rightarrow> monitor" where
  "after_typebot env dto s = typebot_block env dto (after_sqs env dto s)"

text \<open>The calls that configure chatwoot (line 493).\<close>

definition is_chatwoot_create :: "call \<Rightarrow> bool" where
  "is_chatwoot_create c =
     (case c of ChatwootCreate n en a t u sm ni nu ro cp ic im dl ac \<Rightarrow> True | _ \<Rightarrow> False)"

section \<open>Properties of createInstance\<close>

lemmas monitor_ops = record_call_def logger_log_def logger_error_def

lemma webhook_block_frame:
  "webhook_block env dto s = (r, s') \<Longrightarrow> waInstances s' = waInstances s"
  by (auto simp: webhook_block_def monitor_ops Let_def split: option.splits if_splits)

lemma channel_block_frame:
  "channel_block en evs d cc fc ct ft s = (r, s') \<Longrightarrow> waInstances s' = waInstances s"
  by (auto simp: channel_block_def monitor_ops Let_def split: option.splits if_splits)

lemma websocket_block_frame:
  "websocket_block env dto s = (r, s') \<Longrightarrow> waInstances s' = waInstances s"
  unfolding websocket_block_def by (rule channel_block_frame)

lemma rabbitmq_block_frame:
  "rabbitmq_block env dto s = (r, s') \<Longrightarrow> waInstances s' = waInstances s"
  unfolding rabbitmq_block_def by (rule channel_block_frame)

lemma sqs_block_frame:
  "sqs_block env dto s = (r, s') \<Longrightarrow> waInstances s' = waInstances s"
  unfolding sqs_block_def by (rule channel_block_frame)

lemma typebot_block_frame:
  "waInstances (typebot_block env dto s) = waInstances s"
  by (auto simp: typebot_block_def monitor_ops Let_def split: option.splits if_splits)

lemma configure_chatwoot_frame:
  "waInstances (snd (configure_chatwoot env dto inst mk s)) = waInstances s"
  by (auto simp: configure_chatwoot_def monitor_ops Let_def split: option.splits if_splits)

lemma createInstance_try_registered:
  assumes "reaches_registration env dto"
  shows "createInstance_try env dto s =
           configure_and_return env dto (created_instance env dto) (v4 env)
             (auth_generateHash env (instanceName dto) (v4 env) (token dto))
             (s\<lparr>waInstances := (waInstances s)(instanceName dto \<mapsto> created_instance env dto),
                calls := calls s @ registration_calls env dto\<rparr>)"
  using assms
  by (auto simp: createInstance_try_def reaches_registration_def created_instance_def
      registration_calls_def monitor_ops Let_def)

lemma createInstance_try_not_registered:
  assumes "\<not> reaches_registration env dto"
  shows "isl (fst (createInstance_try env dto s))
         \<and> waInstances (snd (createInstance_try env dto s)) = waInstances s"
  using assms
  by (auto simp: createInstance_try_def reaches_registration_def monitor_ops Let_def
      split: option.splits)

lemma createInstance_frame:
  "waInstances (snd (createInstance env dto s)) = waInstances (snd (createInstance_try env dto s))"
  "isl (fst (createInstance env dto s)) = isl (fst (createInstance_try env dto s))"
  by (auto simp: createInstance_def split: prod.splits sum.splits)

lemma webhook_block_isl:
  "isl (fst (webhook_block env dto s)) = (\<not> webhook_accepted env dto)"
  by (auto simp: webhook_block_def webhook_accepted_def Let_def split: option.splits)

lemma wa_business_block_isl:
  "isl (wa_business_block env dto) = (is_business env dto \<and> \<not> truthy_str (number dto))"
  by (auto simp: wa_business_block_def)

lemma return_without_chatwoot_isl:
  "isl (fst (return_without_chatwoot env dto inst mk s))
     = (truthy_bool (qrcode dto) \<and> isl (instance_connectToWhatsapp env inst (number dto)))"
  by (auto simp: return_without_chatwoot_def Let_def split: sum.splits)

lemma return_without_chatwoot_registry:
  "waInstances (snd (return_without_chatwoot env dto inst mk s))
     = (if truthy_bool (qrcode dto)
        then (case instance_connectToWhatsapp env inst (number dto) of
                Inl e \<Rightarrow> waInstances s
              | Inr inst' \<Rightarrow> (waInstances s)(instanceName dto \<mapsto> inst'))
        else waInstances s)"
  by (auto simp: return_without_chatwoot_def monitor_ops Let_def split: sum.splits)

lemma configure_chatwoot_isl:
  "chatwoot_complete dto \<Longrightarrow>
   isl (fst (configure_chatwoot env dto inst mk s)) = (\<not> chatwoot_fields_valid env dto)"
  by (auto simp: configure_chatwoot_def chatwoot_complete_def chatwoot_fields_valid_def
      truthy_str_def Let_def split: option.splits)

lemma configure_and_return_isl:
  "isl (fst (configure_and_return env dto inst iid h s))
     = (if webhook_accepted env dto \<and> (truthy_str (number dto) \<or> \<not> is_business env dto)
        then if chatwoot_complete dto then \<not> chatwoot_fields_valid env dto
             else truthy_bool (qrcode dto)
                  \<and> isl (instance_connectToWhatsapp env inst (number dto))
        else True)"
proof -
  obtain r1 s1 where wb: "webhook_block env dto s = (r1, s1)"
    by (cases "webhook_block env dto s")
  obtain r2 s2 where ws: "websocket_block env dto s1 = (r2, s2)"
    by (cases "websocket_block env dto s1")
  obtain r3 s3 where rb: "rabbitmq_block env dto s2 = (r3, s3)"
    by (cases "rabbitmq_block env dto s2")
  obtain r4 s4 where sq: "sqs_block env dto s3 = (r4, s4)"
    by (cases "sqs_block env dto s3")
  have r1: "isl r1 = (\<not> webhook_accepted env dto)"
    using webhook_block_isl [of env dto s] wb by simp
  show ?thesis
    using r1 wa_business_block_isl [of env dto]
    by (cases r1; cases "wa_business_block env dto")
       (auto simp: configure_and_return_def wb ws rb sq Let_def return_without_chatwoot_isl
          configure_chatwoot_isl chatwoot_complete_def)
qed

lemma configure_and_return_registry:
  "waInstances (snd (configure_and_return env dto inst iid h s))
     = (if webhook_accepted env dto \<and> (truthy_str (number dto) \<or> \<not> is_business env dto)
           \<and> \<not> chatwoot_complete dto \<and> truthy_bool (qrcode dto)
        then (case instance_connectToWhatsapp env inst (number dto) of
                Inl e \<Rightarrow> waInstances s
              | Inr inst' \<Rightarrow> (waInstances s)(instanceName dto \<mapsto> inst'))
        else waInstances s)"
proof -
  obtain r1 s1 where wb: "webhook_block env dto s = (r1, s1)"
    by (cases "webhook_block env dto s")
  obtain r2 s2 where ws: "websocket_block env dto s1 = (r2, s2)"
    by (cases "websocket_block env dto s1")
  obtain r3 s3 where rb: "rabbitmq_block env dto s2 = (r3, s3)"
    by (cases "rabbitmq_block env dto s2")
  obtain r4 s4 where sq: "sqs_block env dto s3 = (r4, s4)"
    by (cases "sqs_block env dto s3")
  have r1: "isl r1 = (\<not> webhook_accepted env dto)"
    using webhook_block_isl [of env dto s] wb by simp
  have frames: "waInstances s1 = waInstances s" "waInstances s2 = waInstances s1"
    "waInstances s3 = waInstances s2" "waInstances s4 = waInstances s3"
    using webhook_block_frame [OF wb] websocket_block_frame [OF ws]
      rabbitmq_block_frame [OF rb] sqs_block_frame [OF sq] by simp_all
  show ?thesis
    using r1 wa_business_block_isl [of env dto] frames
    by (cases r1; cases "wa_business_block env dto")
       (auto simp: configure_and_return_def wb ws rb sq Let_def return_without_chatwoot_registry
          configure_chatwoot_frame typebot_block_frame chatwoot_complete_def monitor_ops
          split: sum.splits)
qed

lemma createInstance_isl:
  "isl (fst (createInstance env dto s)) = createInstance_fails env dto"
proof (cases "reaches_registration env dto")
  case False
  then show ?thesis
    using createInstance_try_not_registered [of env dto s]
    by (simp add: createInstance_frame createInstance_fails_def reaches_chatwoot_test_def)
next
  case True
  then show ?thesis
    by (simp add: createInstance_frame createInstance_try_registered configure_and_return_isl
        createInstance_fails_def reaches_chatwoot_test_def)
qed

lemma createInstance_registry:
  "waInstances (snd (createInstance env dto s))
     = (if reaches_registration env dto
        then (waInstances s)(instanceName dto \<mapsto> final_instance env dto)
        else waInstances s)"
proof (cases "reaches_registration env dto")
  case False
  then show ?thesis
    using createInstance_try_not_registered [of env dto s]
    by (simp add: createInstance_frame)
next
  case True
  then show ?thesis
    by (auto simp: createInstance_frame createInstance_try_registered
        configure_and_return_registry final_instance_def reaches_connect_def
        reaches_chatwoot_test_def split: sum.splits)
qed

lemma grows_refl: "grows s s"
  by (simp add: grows_def)

lemma grows_trans: "grows s t \<Longrightarrow> grows t u \<Longrightarrow> grows s u"
  by (auto simp: grows_def)

lemma grows_record_call: "grows s (record_call c s)"
  by (auto simp: grows_def monitor_ops)

lemma grows_logger_log: "grows s (logger_log e s)"
  by (auto simp: grows_def monitor_ops)

lemma grows_webhook_block: "grows s (snd (webhook_block env dto s))"
  by (auto simp: grows_def webhook_block_def monitor_ops Let_def split: option.splits)

lemma grows_channel_block: "grows s (snd (channel_block en evs d cc fc ct ft s))"
  by (auto simp: grows_def channel_block_def monitor_ops Let_def split: option.splits)

lemma grows_websocket_block: "grows s (snd (websocket_block env dto s))"
  unfolding websocket_block_def by (rule grows_channel_block)

lemma grows_rabbitmq_block: "grows s (snd (rabbitmq_block env dto s))"
  unfolding rabbitmq_block_def by (rule grows_channel_block)

lemma grows_sqs_block: "grows s (snd (sqs_block env dto s))"
  unfolding sqs_block_def by (rule grows_channel_block)

lemma grows_typebot_block: "grows s (typebot_block env dto s)"
  by (auto simp: grows_def typebot_block_def monitor_ops Let_def split: option.splits)

lemma grows_return_without_chatwoot:
  "grows s (snd (return_without_chatwoot env dto inst mk s))"
  by (auto simp: grows_def return_without_chatwoot_def monitor_ops Let_def split: sum.splits)

lemma grows_configure_chatwoot:
  "grows s (snd (configure_chatwoot env dto inst mk s))"
  by (auto simp: grows_def configure_chatwoot_def monitor_ops Let_def split: option.splits)

lemma grows_createInstance_handler:
  "grows (snd (createInstance_try env dto s)) (snd (createInstance env dto s))"
  by (auto simp: grows_def createInstance_def split: prod.splits sum.splits)

lemma grows_after_blocks:
  "grows (after_webhook env dto s) (after_websocket env dto s)"
  "grows (after_websocket env dto s) (after_rabbitmq env dto s)"
  "grows (after_rabbitmq env dto s) (after_sqs env dto s)"
  "grows (after_sqs env dto s) (after_typebot env dto s)"
  by (simp_all add: after_websocket_def after_rabbitmq_def after_sqs_def after_typebot_def
      grows_websocket_block grows_rabbitmq_block grows_sqs_block grows_typebot_block)

lemma configure_and_return_grows:
  assumes "webhook_accepted env dto"
  shows "grows (typebot_block env dto
                 (snd (sqs_block env dto
                   (snd (rabbitmq_block env dto
                     (snd (websocket_block env dto (snd (webhook_block env dto s)))))))))
               (snd (configure_and_return env dto inst iid h s))"
proof -
  obtain r1 s1 where wb: "webhook_block env dto s = (r1, s1)"
    by (cases "webhook_block env dto s")
  obtain r2 s2 where ws: "websocket_block env dto s1 = (r2, s2)"
    by (cases "websocket_block env dto s1")
  obtain r3 s3 where rb: "rabbitmq_block env dto s2 = (r3, s3)"
    by (cases "rabbitmq_block env dto s2")
  obtain r4 s4 where sq: "sqs_block env dto s3 = (r4, s4)"
    by (cases "sqs_block env dto s3")
  have r1: "\<not> isl r1"
    using webhook_block_isl [of env dto s] wb assms by simp
  show ?thesis
    using r1
    by (cases r1; cases "wa_business_block env dto")
       (auto simp: configure_and_return_def wb ws rb sq Let_def
          intro: grows_trans [OF grows_record_call] grows_record_call
            grows_trans [OF grows_record_call grows_trans [OF grows_record_call]]
            grows_return_without_chatwoot grows_configure_chatwoot)
qed

lemma createInstance_grows:
  assumes "reaches_registration env dto" and "webhook_accepted env dto"
  shows "grows (after_typebot env dto s) (snd (createInstance env dto s))"
proof -
  have "grows (after_typebot env dto s) (snd (createInstance_try env dto s))"
    using assms configure_and_return_grows [OF assms(2)]
    by (simp add: createInstance_try_registered after_typebot_def after_sqs_def
        after_rabbitmq_def after_websocket_def after_webhook_def)
  then show ?thesis
    by (rule grows_trans) (rule grows_createInstance_handler)
qed

text \<open>The definitions a concrete call is evaluated with.\<close>

lemmas createInstance_defs =
  createInstance_def createInstance_try_def configure_and_return_def webhook_block_def
  websocket_block_def rabbitmq_block_def sqs_block_def channel_block_def typebot_block_def
  wa_business_block_def return_without_chatwoot_def configure_chatwoot_def is_business_def
  truthy_str_def truthy_bool_def new_instance_def message0_def monitor_ops Let_def

lemmas condition_defs =
  reaches_registration_def webhook_accepted_def chatwoot_complete_def chatwoot_partial_def
  chatwoot_fields_valid_def reaches_chatwoot_test_def reaches_connect_def
  createInstance_fails_def final_instance_def created_instance_def is_business_def
  truthy_str_def truthy_bool_def new_instance_def

lemmas input_defs =
  request_def quiet_env_def no_instances_def engine_connects_def engine_error_def
  first_test_of_isURL_def

text \<open>
  Claim C1, as the code has it. \<^verbatim>\<open>createInstance\<close> has no check of the name against the
  registry. For a request whose name is already registered: when the duplicate-token
  check, the token requirement of the business integration and \<^verbatim>\<open>saveInstance\<close> pass,
  line 131 overwrites the entry under that name with the new instance (the registry has
  the same names as before, and the other entries are untouched), whatever the call
  returns afterwards; when one of them throws, the call fails and the registry is
  unchanged.
\<close>

theorem createInstance_duplicate_name:
  assumes "waInstances s (instanceName dto) = Some old"
  shows "(if reaches_registration env dto
          then waInstances (snd (createInstance env dto s))
                 = (waInstances s)(instanceName dto \<mapsto> final_instance env dto)
               \<and> dom (waInstances (snd (createInstance env dto s))) = dom (waInstances s)
          else isl (fst (createInstance env dto s))
               \<and> waInstances (snd (createInstance env dto s)) = waInstances s)"
  using assms
  by (auto simp: createInstance_registry createInstance_isl createInstance_fails_def
      reaches_chatwoot_test_def split: if_splits)

theorem createInstance_duplicate_name_witness:
  "waInstances alice_open ''alice''
     = Some \<lparr>service = BusinessStartupService, inst_name = Some ''alice'',
             connectionStatus_state = Some ''open'', qrCode = None\<rparr>
   \<and> reaches_registration quiet_env (request ''alice'')
   \<and> waInstances (snd (createInstance quiet_env (request ''alice'') alice_open))
       = [''alice'' \<mapsto> \<lparr>service = BaileysStartupService, inst_name = Some ''alice'',
                         connectionStatus_state = Some ''close'', qrCode = None\<rparr>]"
proof -
  have old: "waInstances alice_open (instanceName (request ''alice''))
     = Some \<lparr>service = BusinessStartupService, inst_name = Some ''alice'',
             connectionStatus_state = Some ''open'', qrCode = None\<rparr>"
    by (simp add: alice_open_def request_def)
  have reach: "reaches_registration quiet_env (request ''alice'')"
    by (simp add: condition_defs input_defs)
  have final: "final_instance quiet_env (request ''alice'')
     = \<lparr>service = BaileysStartupService, inst_name = Some ''alice'',
        connectionStatus_state = Some ''close'', qrCode = None\<rparr>"
    by (simp add: condition_defs input_defs)
  show ?thesis
    using createInstance_duplicate_name [OF old, of quiet_env] old reach final
    by (simp add: alice_open_def request_def)
qed

text \<open>The claim as the spec states it fails: with every collaborator returning, a
  second \<^verbatim>\<open>createInstance\<close> for the name alice succeeds and replaces the open business
  instance by a new closed one.\<close>

theorem createInstance_replaces_entry:
  "\<not> isl (fst (createInstance quiet_env (request ''alice'') alice_open))
   \<and> waInstances (snd (createInstance quiet_env (request ''alice'') alice_open)) ''alice''
       = Some \<lparr>service = BaileysStartupService, inst_name = Some ''alice'',
               connectionStatus_state = Some ''close'', qrCode = None\<rparr>
   \<and> waInstances alice_open ''alice''
       = Some \<lparr>service = BusinessStartupService, inst_name = Some ''alice'',
               connectionStatus_state = Some ''open'', qrCode = None\<rparr>"
  by (simp add: createInstance_defs input_defs alice_open_def)

lemma chatwoot_calls_record_call:
  "filter is_chatwoot_create (calls (record_call c s))
     = filter is_chatwoot_create (calls s) @ (if is_chatwoot_create c then [c] else [])"
  by (simp add: monitor_ops)

lemma chatwoot_calls_webhook_block:
  "filter is_chatwoot_create (calls (snd (webhook_block env dto s)))
     = filter is_chatwoot_create (calls s)"
  by (auto simp: webhook_block_def monitor_ops is_chatwoot_create_def Let_def
      split: option.splits)

lemma chatwoot_calls_channel_block:
  assumes "\<And>es. \<not> is_chatwoot_create (cc es)" and "\<not> is_chatwoot_create fc"
  shows "filter is_chatwoot_create (calls (snd (channel_block en evs d cc fc ct ft s)))
     = filter is_chatwoot_create (calls s)"
  using assms
  by (auto simp: channel_block_def monitor_ops Let_def split: option.splits)

lemma chatwoot_calls_websocket_block:
  "filter is_chatwoot_create (calls (snd (websocket_block env dto s)))
     = filter is_chatwoot_create (calls s)"
  unfolding websocket_block_def
  by (rule chatwoot_calls_channel_block) (simp_all add: is_chatwoot_create_def)

lemma chatwoot_calls_rabbitmq_block:
  "filter is_chatwoot_create (calls (snd (rabbitmq_block env dto s)))
     = filter is_chatwoot_create (calls s)"
  unfolding rabbitmq_block_def
  by (rule chatwoot_calls_channel_block) (simp_all add: is_chatwoot_create_def)

lemma chatwoot_calls_sqs_block:
  "filter is_chatwoot_create (calls (snd (sqs_block env dto s)))
     = filter is_chatwoot_create (calls s)"
  unfolding sqs_block_def
  by (rule chatwoot_calls_channel_block) (simp_all add: is_chatwoot_create_def)

lemma chatwoot_calls_typebot_block:
  "filter is_chatwoot_create (calls (typebot_block env dto s))
     = filter is_chatwoot_create (calls s)"
  by (auto simp: typebot_block_def monitor_ops is_chatwoot_create_def Let_def
      split: option.splits)

lemma chatwoot_calls_return_without_chatwoot:
  "filter is_chatwoot_create (calls (snd (return_without_chatwoot env dto inst mk s)))
     = filter is_chatwoot_create (calls s)"
  by (auto simp: return_without_chatwoot_def monitor_ops is_chatwoot_create_def Let_def
      split: sum.splits)

lemma chatwoot_calls_configure_and_return:
  assumes "\<not> chatwoot_complete dto"
  shows "filter is_chatwoot_create (calls (snd (configure_and_return env dto inst iid h s)))
     = filter is_chatwoot_create (calls s)"
proof -
  obtain r1 s1 where wb: "webhook_block env dto s = (r1, s1)"
    by (cases "webhook_block env dto s")
  obtain r2 s2 where ws: "websocket_block env dto s1 = (r2, s2)"
    by (cases "websocket_block env dto s1")
  obtain r3 s3 where rb: "rabbitmq_block env dto s2 = (r3, s3)"
    by (cases "rabbitmq_block env dto s2")
  obtain r4 s4 where sq: "sqs_block env dto s3 = (r4, s4)"
    by (cases "sqs_block env dto s3")
  have frames: "filter is_chatwoot_create (calls s1) = filter is_chatwoot_create (calls s)"
    "filter is_chatwoot_create (calls s2) = filter is_chatwoot_create (calls s1)"
    "filter is_chatwoot_create (calls s3) = filter is_chatwoot_create (calls s2)"
    "filter is_chatwoot_create (calls s4) = filter is_chatwoot_create (calls s3)"
    using chatwoot_calls_webhook_block [of env dto s] chatwoot_calls_websocket_block [of env dto s1]
      chatwoot_calls_rabbitmq_block [of env dto s2] chatwoot_calls_sqs_block [of env dto s3]
    by (simp_all add: wb ws rb sq)
  show ?thesis
    using assms frames
    by (cases r1; cases "wa_business_block env dto")
       (auto simp: configure_and_return_def wb ws rb sq Let_def chatwoot_complete_def
          chatwoot_calls_return_without_chatwoot chatwoot_calls_record_call
          chatwoot_calls_typebot_block is_chatwoot_create_def)
qed

lemma chatwoot_calls_createInstance_handler:
  "calls (snd (createInstance env dto s)) = calls (snd (createInstance_try env dto s))"
  by (auto simp: createInstance_def split: prod.splits sum.splits)

text \<open>
  Claim C2, as the code has it. The registration of line 131 comes before every check
  of the chatwoot fields and nothing undoes it: for a request with some but not all of
  the three chatwoot fields that passes lines 92 to 118, the instance is in the registry
  when the call is over, whether it returned or threw, and the chatwoot service has not
  been called.
\<close>

theorem createInstance_chatwoot_partial:
  assumes "chatwoot_partial dto" and "reaches_registration env dto"
  shows "waInstances (snd (createInstance env dto s)) (instanceName dto)
           = Some (final_instance env dto)
       \<and> filter is_chatwoot_create (calls (snd (createInstance env dto s)))
           = filter is_chatwoot_create (calls s)"
proof -
  have "\<not> chatwoot_complete dto"
    using assms(1) by (simp add: chatwoot_partial_def)
  then have "filter is_chatwoot_create (calls (snd (createInstance env dto s)))
           = filter is_chatwoot_create (calls s)"
    using assms(2)
    by (simp add: chatwoot_calls_createInstance_handler createInstance_try_registered
        chatwoot_calls_configure_and_return registration_calls_def is_chatwoot_create_def)
  then show ?thesis
    using assms(2) by (simp add: createInstance_registry)
qed

theorem createInstance_chatwoot_partial_witness:
  "chatwoot_partial carol_request \<and> reaches_registration quiet_env carol_request
   \<and> waInstances (snd (createInstance quiet_env carol_request no_instances)) ''carol''
       = Some \<lparr>service = BaileysStartupService, inst_name = Some ''carol'',
               connectionStatus_state = Some ''close'', qrCode = None\<rparr>
   \<and> filter is_chatwoot_create (calls (snd (createInstance quiet_env carol_request no_instances)))
       = []"
proof -
  have partial: "chatwoot_partial carol_request"
    by (simp add: condition_defs carol_request_def input_defs)
  have reach: "reaches_registration quiet_env carol_request"
    by (simp add: condition_defs carol_request_def input_defs)
  have final: "final_instance quiet_env carol_request
     = \<lparr>service = BaileysStartupService, inst_name = Some ''carol'',
        connectionStatus_state = Some ''close'', qrCode = None\<rparr>"
    by (simp add: condition_defs carol_request_def input_defs)
  have name: "instanceName carol_request = ''carol''"
    by (simp add: carol_request_def request_def)
  show ?thesis
    using createInstance_chatwoot_partial [OF partial reach, of no_instances] partial reach
    by (simp add: final name no_instances_def)
qed

text \<open>The claim as the spec states it fails: with the account id alone, carol is
  registered (and the call returns).\<close>

theorem createInstance_chatwoot_partial_registers:
  "\<not> isl (fst (createInstance quiet_env carol_request no_instances))
   \<and> waInstances (snd (createInstance quiet_env carol_request no_instances)) ''carol''
       = Some \<lparr>service = BaileysStartupService, inst_name = Some ''carol'',
               connectionStatus_state = Some ''close'', qrCode = None\<rparr>"
  by (simp add: createInstance_defs input_defs carol_request_def)

lemma message0_BadRequestException: "message0 (BadRequestException m) = Inr m"
  by (simp add: message0_def BadRequestException_def)

lemma createInstance_rethrows:
  "fst (createInstance_try env dto s) = Inl e \<Longrightarrow>
   fst (createInstance env dto s)
     = (case message0 e of Inl type_error \<Rightarrow> Inl type_error
        | Inr m \<Rightarrow> Inl (BadRequestException m))"
  by (auto simp: createInstance_def split: prod.splits sum.splits)

lemma configure_and_return_connect_throws:
  assumes "webhook_accepted env dto" and "truthy_str (number dto) \<or> \<not> is_business env dto"
    and "\<not> chatwoot_complete dto" and "truthy_bool (qrcode dto)"
    and "instance_connectToWhatsapp env inst (number dto) = Inl e"
  shows "fst (configure_and_return env dto inst iid h s) = Inl e"
proof -
  obtain r1 s1 where wb: "webhook_block env dto s = (r1, s1)"
    by (cases "webhook_block env dto s")
  obtain r2 s2 where ws: "websocket_block env dto s1 = (r2, s2)"
    by (cases "websocket_block env dto s1")
  obtain r3 s3 where rb: "rabbitmq_block env dto s2 = (r3, s3)"
    by (cases "rabbitmq_block env dto s2")
  obtain r4 s4 where sq: "sqs_block env dto s3 = (r4, s4)"
    by (cases "sqs_block env dto s3")
  have r1: "\<not> isl r1"
    using webhook_block_isl [of env dto s] wb assms(1) by simp
  have wa: "\<not> isl (wa_business_block env dto)"
    using assms(2) by (auto simp: wa_business_block_isl)
  show ?thesis
    using r1 wa assms(3-5)
    by (cases r1; cases "wa_business_block env dto")
       (auto simp: configure_and_return_def wb ws rb sq Let_def chatwoot_complete_def
          return_without_chatwoot_def)
qed

text \<open>
  Claim C3, as the code has it. The connect of line 409 has no handler of its own: when
  a request reaches it and the engine throws, \<^verbatim>\<open>createInstance\<close> fails with the
  BadRequestException of the first element of the engine error's message (line 569), and
  the instance, registered at line 131, stays in the registry as it was created.
\<close>

theorem createInstance_connect_throws:
  assumes "reaches_connect env dto"
    and "instance_connectToWhatsapp env (created_instance env dto) (number dto) = Inl e"
  shows "fst (createInstance env dto s)
           = (case message0 e of Inl type_error \<Rightarrow> Inl type_error
              | Inr m \<Rightarrow> Inl (BadRequestException m))
       \<and> waInstances (snd (createInstance env dto s)) (instanceName dto)
           = Some (created_instance env dto)"
proof -
  have reach: "reaches_registration env dto"
    using assms(1) by (simp add: reaches_connect_def reaches_chatwoot_test_def)
  have "fst (createInstance_try env dto s) = Inl e"
    using assms
    by (simp add: createInstance_try_registered [OF reach] configure_and_return_connect_throws
        reaches_connect_def reaches_chatwoot_test_def)
  then have "fst (createInstance env dto s)
           = (case message0 e of Inl type_error \<Rightarrow> Inl type_error
              | Inr m \<Rightarrow> Inl (BadRequestException m))"
    by (rule createInstance_rethrows)
  moreover have "final_instance env dto = created_instance env dto"
    using assms by (simp add: final_instance_def)
  ultimately show ?thesis
    using reach by (simp add: createInstance_registry)
qed

theorem createInstance_connect_throws_witness:
  "reaches_connect engine_fails bob_qrcode
   \<and> instance_connectToWhatsapp engine_fails (created_instance engine_fails bob_qrcode)
        (number bob_qrcode) = Inl engine_error
   \<and> fst (createInstance engine_fails bob_qrcode no_instances)
       = Inl (BadRequestException (Some ''C''))
   \<and> waInstances (snd (createInstance engine_fails bob_qrcode no_instances)) ''bob''
       = Some \<lparr>service = BaileysStartupService, inst_name = Some ''bob'',
               connectionStatus_state = Some ''close'', qrCode = None\<rparr>"
proof -
  have reach: "reaches_connect engine_fails bob_qrcode"
    by (simp add: condition_defs bob_qrcode_def engine_fails_def input_defs)
  have throws: "instance_connectToWhatsapp engine_fails (created_instance engine_fails bob_qrcode)
        (number bob_qrcode) = Inl engine_error"
    by (simp add: engine_fails_def quiet_env_def)
  have m: "message0 engine_error = Inr (Some ''C'')"
    by (simp add: message0_def engine_error_def)
  have created: "created_instance engine_fails bob_qrcode
     = \<lparr>service = BaileysStartupService, inst_name = Some ''bob'',
        connectionStatus_state = Some ''close'', qrCode = None\<rparr>"
    by (simp add: condition_defs bob_qrcode_def engine_fails_def input_defs)
  have name: "instanceName bob_qrcode = ''bob''"
    by (simp add: bob_qrcode_def request_def)
  show ?thesis
    using createInstance_connect_throws [OF reach throws, of no_instances] reach throws
    by (simp add: m created name)
qed

text \<open>The claim as the spec states it fails: with \<open>qrcode\<close> set and an engine that
  throws on connect, the call does not return a result.\<close>

theorem createInstance_connect_throws_fails:
  "isl (fst (createInstance engine_fails bob_qrcode no_instances))
   \<and> truthy_bool (qrcode bob_qrcode)
   \<and> instance_connectToWhatsapp engine_fails
        \<lparr>service = BaileysStartupService, inst_name = Some ''bob'',
         connectionStatus_state = Some ''close'', qrCode = None\<rparr> (number bob_qrcode)
       = Inl engine_error"
  by (simp add: createInstance_defs input_defs bob_qrcode_def engine_fails_def)

lemma createInstance_duplicate_token:
  assumes "auth_checkDuplicateToken env (token dto) = Some e"
  shows "createInstance env dto s
           = (case message0 e of
                Inl type_error \<Rightarrow>
                  (Inl type_error, s\<lparr>calls := calls s @ [CheckDuplicateToken (token dto)]\<rparr>)
              | Inr m \<Rightarrow>
                  (Inl (BadRequestException m),
                   s\<lparr>calls := calls s @ [CheckDuplicateToken (token dto)],
                     logged := logged s @ [LogErrorMessage m]\<rparr>))"
  using assms
  by (simp add: createInstance_def createInstance_try_def monitor_ops split: sum.splits)

lemma createInstance_token_required:
  assumes "auth_checkDuplicateToken env (token dto) = None"
    and "\<not> truthy_str (token dto)" and "is_business env dto"
  shows "createInstance env dto s
           = (Inl (BadRequestException (Some ''token is required'')),
              s\<lparr>calls := calls s @ [CheckDuplicateToken (token dto)],
                logged := logged s @ [LogErrorMessage (Some ''token is required'')]\<rparr>)"
  using assms
  by (simp add: createInstance_def createInstance_try_def monitor_ops
      message0_BadRequestException)

lemma createInstance_own_error:
  assumes "fst (createInstance_try env dto s) = Inl (BadRequestException m)"
  shows "fst (createInstance env dto s) = Inl (BadRequestException m)"
  using createInstance_rethrows [OF assms] by (simp add: message0_BadRequestException)

lemma webhook_block_rejected:
  assumes "\<not> webhook_accepted env dto"
  shows "fst (webhook_block env dto s)
           = Inl (BadRequestException (Some ''Invalid \"url\" property in webhook''))"
  using assms
  by (auto simp: webhook_block_def webhook_accepted_def split: option.splits)

lemma createInstance_webhook_rejected:
  assumes "reaches_registration env dto" and "\<not> webhook_accepted env dto"
  shows "fst (createInstance env dto s)
           = Inl (BadRequestException (Some ''Invalid \"url\" property in webhook''))
       \<and> waInstances (snd (createInstance env dto s)) (instanceName dto)
           = Some (created_instance env dto)"
proof -
  let ?s = "s\<lparr>waInstances := (waInstances s)(instanceName dto \<mapsto> created_instance env dto),
               calls := calls s @ registration_calls env dto\<rparr>"
  obtain s1 where "webhook_block env dto ?s
           = (Inl (BadRequestException (Some ''Invalid \"url\" property in webhook'')), s1)"
    using webhook_block_rejected [OF assms(2), of ?s]
    by (cases "webhook_block env dto ?s") simp
  then have "fst (createInstance_try env dto s)
           = Inl (BadRequestException (Some ''Invalid \"url\" property in webhook''))"
    by (simp add: createInstance_try_registered [OF assms(1)] configure_and_return_def)
  then have "fst (createInstance env dto s)
           = Inl (BadRequestException (Some ''Invalid \"url\" property in webhook''))"
    by (rule createInstance_own_error)
  moreover have "final_instance env dto = created_instance env dto"
    using assms(2) by (simp add: final_instance_def reaches_connect_def reaches_chatwoot_test_def)
  ultimately show ?thesis
    using assms(1) by (simp add: createInstance_registry)
qed

lemma createInstance_error_class:
  assumes "fst (createInstance env dto s) = Inl e"
  shows "cls e = BadRequest \<or> cls e = TypeError"
  using assms
  by (auto simp: createInstance_def BadRequestException_def message0_def TypeError_undefined_def
      split: prod.splits sum.splits message.splits list.splits)

text \<open>
  Claim C4, as the code has it. Every failure of \<^verbatim>\<open>createInstance\<close> reaches the caller
  as a BadRequestException of the first element of the original error's message (or as
  the TypeError of reading it, when there is none), so an exception the controller built
  itself arrives with its class and message unchanged. When the duplicate-token check
  throws, whatever it throws, or the token of the business integration is missing,
  nothing but that check has been called and the registry is as it was. Once lines 92 to
  118 have passed, the
  instance is in the registry when the call is over, whatever is thrown later: the
  validation error of a malformed webhook URL (line 149) is surfaced the same way and
  leaves the new instance registered.
\<close>

theorem createInstance_failures_surfaced:
  "(\<forall>e. auth_checkDuplicateToken env (token dto) = Some e \<longrightarrow>
      createInstance env dto s
        = (case message0 e of
             Inl type_error \<Rightarrow>
               (Inl type_error, s\<lparr>calls := calls s @ [CheckDuplicateToken (token dto)]\<rparr>)
           | Inr m \<Rightarrow>
               (Inl (BadRequestException m),
                s\<lparr>calls := calls s @ [CheckDuplicateToken (token dto)],
                  logged := logged s @ [LogErrorMessage m]\<rparr>)))
   \<and> (auth_checkDuplicateToken env (token dto) = None \<and> \<not> truthy_str (token dto)
        \<and> is_business env dto \<longrightarrow>
      createInstance env dto s
        = (Inl (BadRequestException (Some ''token is required'')),
           s\<lparr>calls := calls s @ [CheckDuplicateToken (token dto)],
             logged := logged s @ [LogErrorMessage (Some ''token is required'')]\<rparr>))
   \<and> (\<forall>e. fst (createInstance_try env dto s) = Inl e \<longrightarrow>
      fst (createInstance env dto s)
        = (case message0 e of
             Inl type_error \<Rightarrow> Inl type_error
           | Inr m \<Rightarrow> Inl (BadRequestException m)))
   \<and> (\<forall>m. fst (createInstance_try env dto s) = Inl (BadRequestException m) \<longrightarrow>
      fst (createInstance env dto s) = Inl (BadRequestException m))
   \<and> (\<forall>e. fst (createInstance env dto s) = Inl e \<longrightarrow> cls e = BadRequest \<or> cls e = TypeError)
   \<and> (reaches_registration env dto \<longrightarrow>
      waInstances (snd (createInstance env dto s)) (instanceName dto)
        = Some (final_instance env dto))
   \<and> (reaches_registration env dto \<and> \<not> webhook_accepted env dto \<longrightarrow>
      fst (createInstance env dto s)
        = Inl (BadRequestException (Some ''Invalid \"url\" property in webhook''))
      \<and> waInstances (snd (createInstance env dto s)) (instanceName dto)
          = Some (created_instance env dto))"
proof -
  have registered: "reaches_registration env dto \<longrightarrow>
      waInstances (snd (createInstance env dto s)) (instanceName dto)
        = Some (final_instance env dto)"
    by (simp add: createInstance_registry)
  show ?thesis
    using createInstance_duplicate_token [of env dto _ s]
      createInstance_token_required [of env dto s]
      createInstance_rethrows [of env dto s]
      createInstance_own_error [of env dto s]
      createInstance_error_class [of env dto s]
      createInstance_webhook_rejected [of env dto s]
      registered
    by blast
qed

theorem createInstance_failures_surfaced_witness:
  "auth_checkDuplicateToken duplicate_token (token (request ''bob''))
     = Some (BadRequestException (Some ''Token already exists''))
   \<and> message0 (BadRequestException (Some ''Token already exists''))
       = Inr (Some ''Token already exists'')
   \<and> createInstance duplicate_token (request ''bob'') no_instances
       = (Inl (BadRequestException (Some ''Token already exists'')),
          \<lparr>waInstances = Map.empty, calls = [CheckDuplicateToken None],
           logged = [LogErrorMessage (Some ''Token already exists'')]\<rparr>)"
proof -
  have thrown: "auth_checkDuplicateToken duplicate_token (token (request ''bob''))
     = Some (BadRequestException (Some ''Token already exists''))"
    by (simp add: duplicate_token_def)
  have first: "message0 (BadRequestException (Some ''Token already exists''))
       = Inr (Some ''Token already exists'')"
    by (rule message0_BadRequestException)
  from createInstance_failures_surfaced [of duplicate_token "request ''bob''" no_instances]
    thrown
  have "createInstance duplicate_token (request ''bob'') no_instances
       = (case message0 (BadRequestException (Some ''Token already exists'')) of
            Inl type_error \<Rightarrow>
              (Inl type_error,
               no_instances\<lparr>calls := calls no_instances
                                @ [CheckDuplicateToken (token (request ''bob''))]\<rparr>)
          | Inr m \<Rightarrow>
              (Inl (BadRequestException m),
               no_instances\<lparr>calls := calls no_instances
                                @ [CheckDuplicateToken (token (request ''bob''))],
                 logged := logged no_instances @ [LogErrorMessage m]\<rparr>))"
    by blast
  then show ?thesis
    using thrown first by (simp add: no_instances_def request_def)
qed

text \<open>The claim as the spec states it fails: a malformed webhook URL is surfaced as
  the validation error of line 149, and bob, absent before the call, is registered after
  it.\<close>

theorem createInstance_webhook_error_after_registration:
  "fst (createInstance quiet_env bob_bad_webhook no_instances)
     = Inl (BadRequestException (Some ''Invalid \"url\" property in webhook''))
   \<and> waInstances no_instances ''bob'' = None
   \<and> waInstances (snd (createInstance quiet_env bob_bad_webhook no_instances)) ''bob''
       = Some \<lparr>service = BaileysStartupService, inst_name = Some ''bob'',
               connectionStatus_state = Some ''close'', qrCode = None\<rparr>"
  by (simp add: createInstance_defs input_defs bob_bad_webhook_def BadRequestException_def)

lemma default_events_equal:
  "websocket_default_events = webhook_default_events"
  "rabbitmq_default_events = webhook_default_events"
  "sqs_default_events = webhook_default_events"
  by (simp_all add: webhook_default_events_def websocket_default_events_def
      rabbitmq_default_events_def sqs_default_events_def)

lemma default_events_distinct:
  "distinct webhook_default_events \<and> length webhook_default_events = 26"
  by (simp add: webhook_default_events_def)

lemma channel_block_events:
  "fst (channel_block en evs d cc fc ct ft s)
     = (if truthy_bool en \<and> ct = None \<and> ft = None
        then map_option (\<lambda>es. if length es = 0 then d else es) evs
        else None)"
  by (auto simp: channel_block_def Let_def split: option.splits)

lemma webhook_block_events:
  assumes "webhook_accepted env dto"
  shows "fst (webhook_block env dto s)
     = Inr (case webhook dto of
              None \<Rightarrow> None
            | Some w \<Rightarrow>
               if w \<noteq> [] \<and> webhookService_create env = None \<and> webhookService_find env = None
               then Some (case events dto of
                            None \<Rightarrow> webhook_default_events
                          | Some es \<Rightarrow> if length es = 0 then webhook_default_events else es)
               else None)"
  using assms
  by (auto simp: webhook_block_def webhook_accepted_def Let_def split: option.splits)

text \<open>
  Claim C6 at an input where the code departs from it: a websocket is requested and its
  event list is omitted. Reading \<^verbatim>\<open>websocket_events.length\<close> (line 207) raises inside
  the \<^verbatim>\<open>try\<close>; the TypeError is logged, the websocket service is never called and the
  result carries no event list.
\<close>

theorem createInstance_websocket_events_omitted:
  "websocket_events bob_websocket = None
   \<and> truthy_bool (websocket_enabled bob_websocket)
   \<and> (case fst (createInstance quiet_env bob_websocket no_instances) of
         Inl e \<Rightarrow> False
       | Inr res \<Rightarrow> res_websocket res = ChannelInfo (Some True) None)
   \<and> calls (snd (createInstance quiet_env bob_websocket no_instances))
       = [CheckDuplicateToken None, SaveInstance None ''bob'' None None,
          SendDataWebhook ''bob'' INSTANCE_CREATE (Some ''id-1''), DelInstanceTime ''bob'',
          GenerateHash ''bob'' ''id-1'' None,
          SettingsCreate ''bob'' (LocalSettings False [] True False False False False),
          IntegrationCreate ''bob'' None None None]
   \<and> logged (snd (createInstance quiet_env bob_websocket no_instances))
       = [Log (TypeError_undefined ''length'')]"
  by (simp add: createInstance_defs input_defs bob_websocket_def result_of_def
      local_settings_def or_false_def or_empty_def nullish_def)

text \<open>
  Claim C7 at an input where the code departs from it: the typebot URL is malformed. The
  check of line 350 is inside the \<^verbatim>\<open>try\<close> of line 349, so its BadRequestException is
  logged and not thrown: the call returns, with the typebot reported as enabled.
\<close>

theorem createInstance_typebot_url_malformed:
  "typebot_url bob_bad_typebot = Some ''not a url''
   \<and> \<not> isURL quiet_env ''not a url''
   \<and> (case fst (createInstance quiet_env bob_bad_typebot no_instances) of
         Inl e \<Rightarrow> False
       | Inr res \<Rightarrow>
           res_typebot res
             = TypebotInfo True (Some ''not a url'') None None None None None None)
   \<and> logged (snd (createInstance quiet_env bob_bad_typebot no_instances))
       = [Log (BadRequestException (Some ''Invalid \"url\" property in typebot_url''))]"
  by (simp add: createInstance_defs input_defs bob_bad_typebot_def result_of_def
      local_settings_def or_false_def or_empty_def nullish_def)

lemma channel_block_attempted:
  assumes "truthy_bool en" and "evs = Some es"
  shows "cc (if length es = 0 then d else es)
           \<in> set (calls (snd (channel_block en evs d cc fc ct ft s)))"
  using assms by (auto simp: channel_block_def monitor_ops Let_def split: option.splits)

lemma channel_block_logged:
  assumes "truthy_bool en" and "evs = Some es"
    and "ct = Some e \<or> (ct = None \<and> ft = Some e)"
  shows "Log e \<in> set (logged (snd (channel_block en evs d cc fc ct ft s)))"
  using assms by (auto simp: channel_block_def monitor_ops Let_def split: option.splits)

lemma webhook_block_attempted:
  assumes "webhook dto = Some w" and "w \<noteq> []" and "isURL env w"
  shows "WebhookCreate (instanceName dto) True w
           (case events dto of
              None \<Rightarrow> webhook_default_events
            | Some es \<Rightarrow> if length es = 0 then webhook_default_events else es)
           (webhook_by_events dto) (webhook_base64 dto)
         \<in> set (calls (snd (webhook_block env dto s)))"
  using assms by (auto simp: webhook_block_def monitor_ops Let_def split: option.splits)

lemma webhook_block_logged:
  assumes "webhook dto = Some w" and "w \<noteq> []" and "isURL env w"
    and "webhookService_create env = Some e
         \<or> (webhookService_create env = None \<and> webhookService_find env = Some e)"
  shows "Log e \<in> set (logged (snd (webhook_block env dto s)))"
  using assms by (auto simp: webhook_block_def monitor_ops Let_def split: option.splits)

lemma typebot_block_attempted:
  assumes "typebot_url dto = Some u" and "u \<noteq> []" and "isURL env u"
  shows "TypebotCreate (instanceName dto) True u (typebot dto) (typebot_expire dto)
           (typebot_keyword_finish dto) (typebot_delay_message dto)
           (typebot_unknown_message dto) (typebot_listening_from_me dto)
         \<in> set (calls (typebot_block env dto s))"
  using assms by (auto simp: typebot_block_def monitor_ops Let_def split: option.splits)

lemma typebot_block_logged:
  assumes "typebot_url dto = Some u" and "u \<noteq> []" and "isURL env u"
    and "typebotService_create env = Some e"
  shows "Log e \<in> set (logged (typebot_block env dto s))"
  using assms by (auto simp: typebot_block_def monitor_ops Let_def split: option.splits)

lemma grows_to_the_end:
  assumes "reaches_registration env dto" and "webhook_accepted env dto"
  shows "grows (after_webhook env dto s) (snd (createInstance env dto s))"
    and "grows (after_websocket env dto s) (snd (createInstance env dto s))"
    and "grows (after_rabbitmq env dto s) (snd (createInstance env dto s))"
    and "grows (after_sqs env dto s) (snd (createInstance env dto s))"
    and "grows (after_typebot env dto s) (snd (createInstance env dto s))"
proof -
  show 5: "grows (after_typebot env dto s) (snd (createInstance env dto s))"
    using assms by (rule createInstance_grows)
  show 4: "grows (after_sqs env dto s) (snd (createInstance env dto s))"
    using grows_after_blocks(4) 5 by (rule grows_trans)
  show 3: "grows (after_rabbitmq env dto s) (snd (createInstance env dto s))"
    using grows_after_blocks(3) 4 by (rule grows_trans)
  show 2: "grows (after_websocket env dto s) (snd (createInstance env dto s))"
    using grows_after_blocks(2) 3 by (rule grows_trans)
  show "grows (after_webhook env dto s) (snd (createInstance env dto s))"
    using grows_after_blocks(1) 2 by (rule grows_trans)
qed

lemma grows_calls: "grows s s' \<Longrightarrow> c \<in> set (calls s) \<Longrightarrow> c \<in> set (calls s')"
  by (auto simp: grows_def)

lemma grows_logged: "grows s s' \<Longrightarrow> l \<in> set (logged s) \<Longrightarrow> l \<in> set (logged s')"
  by (auto simp: grows_def)

lemma webhook_attempted_and_logged:
  assumes "reaches_registration env dto" and "webhook_accepted env dto"
    and "webhook dto = Some w" and "w \<noteq> []"
  shows "WebhookCreate (instanceName dto) True w
           (case events dto of
              None \<Rightarrow> webhook_default_events
            | Some es \<Rightarrow> if length es = 0 then webhook_default_events else es)
           (webhook_by_events dto) (webhook_base64 dto)
         \<in> set (calls (snd (createInstance env dto s)))"
    and "webhookService_create env = Some e
         \<or> (webhookService_create env = None \<and> webhookService_find env = Some e)
         \<Longrightarrow> Log e \<in> set (logged (snd (createInstance env dto s)))"
proof -
  have url: "isURL env w"
    using assms(2-4) by (simp add: webhook_accepted_def)
  show "WebhookCreate (instanceName dto) True w
           (case events dto of
              None \<Rightarrow> webhook_default_events
            | Some es \<Rightarrow> if length es = 0 then webhook_default_events else es)
           (webhook_by_events dto) (webhook_base64 dto)
         \<in> set (calls (snd (createInstance env dto s)))"
    using grows_to_the_end(1) [OF assms(1,2)] webhook_block_attempted [OF assms(3,4) url]
    unfolding after_webhook_def by (rule grows_calls)
  show "Log e \<in> set (logged (snd (createInstance env dto s)))"
    if "webhookService_create env = Some e
         \<or> (webhookService_create env = None \<and> webhookService_find env = Some e)"
    using grows_to_the_end(1) [OF assms(1,2)] webhook_block_logged [OF assms(3,4) url that]
    unfolding after_webhook_def by (rule grows_logged)
qed

lemma websocket_attempted_and_logged:
  assumes "reaches_registration env dto" and "webhook_accepted env dto"
    and "truthy_bool (websocket_enabled dto)" and "websocket_events dto = Some es"
  shows "WebsocketCreate (instanceName dto) True
           (if length es = 0 then websocket_default_events else es)
         \<in> set (calls (snd (createInstance env dto s)))"
    and "websocketService_create env = Some e
         \<or> (websocketService_create env = None \<and> websocketService_find env = Some e)
         \<Longrightarrow> Log e \<in> set (logged (snd (createInstance env dto s)))"
proof -
  show "WebsocketCreate (instanceName dto) True
           (if length es = 0 then websocket_default_events else es)
         \<in> set (calls (snd (createInstance env dto s)))"
    using grows_to_the_end(2) [OF assms(1,2)] channel_block_attempted [OF assms(3,4)]
    unfolding after_websocket_def websocket_block_def by (rule grows_calls)
  show "Log e \<in> set (logged (snd (createInstance env dto s)))"
    if "websocketService_create env = Some e
         \<or> (websocketService_create env = None \<and> websocketService_find env = Some e)"
    using grows_to_the_end(2) [OF assms(1,2)] channel_block_logged [OF assms(3,4) that]
    unfolding after_websocket_def websocket_block_def by (rule grows_logged)
qed

lemma rabbitmq_attempted_and_logged:
  assumes "reaches_registration env dto" and "webhook_accepted env dto"
    and "truthy_bool (rabbitmq_enabled dto)" and "rabbitmq_events dto = Some es"
  shows "RabbitmqCreate (instanceName dto) True
           (if length es = 0 then rabbitmq_default_events else es)
         \<in> set (calls (snd (createInstance env dto s)))"
    and "rabbitmqService_create env = Some e
         \<or> (rabbitmqService_create env = None \<and> rabbitmqService_find env = Some e)
         \<Longrightarrow> Log e \<in> set (logged (snd (createInstance env dto s)))"
proof -
  show "RabbitmqCreate (instanceName dto) True
           (if length es = 0 then rabbitmq_default_events else es)
         \<in> set (calls (snd (createInstance env dto s)))"
    using grows_to_the_end(3) [OF assms(1,2)] channel_block_attempted [OF assms(3,4)]
    unfolding after_rabbitmq_def rabbitmq_block_def by (rule grows_calls)
  show "Log e \<in> set (logged (snd (createInstance env dto s)))"
    if "rabbitmqService_create env = Some e
         \<or> (rabbitmqService_create env = None \<and> rabbitmqService_find env = Some e)"
    using grows_to_the_end(3) [OF assms(1,2)] channel_block_logged [OF assms(3,4) that]
    unfolding after_rabbitmq_def rabbitmq_block_def by (rule grows_logged)
qed

lemma sqs_attempted_and_logged:
  assumes "reaches_registration env dto" and "webhook_accepted env dto"
    and "truthy_bool (sqs_enabled dto)" and "sqs_events dto = Some es"
  shows "SqsCreate (instanceName dto) True
           (if length es = 0 then sqs_default_events else es)
         \<in> set (calls (snd (createInstance env dto s)))"
    and "sqsService_create env = Some e
         \<or> (sqsService_create env = None \<and> sqsService_find env = Some e)
         \<Longrightarrow> Log e \<in> set (logged (snd (createInstance env dto s)))"
proof -
  show "SqsCreate (instanceName dto) True
           (if length es = 0 then sqs_default_events else es)
         \<in> set (calls (snd (createInstance env dto s)))"
    using grows_to_the_end(4) [OF assms(1,2)] channel_block_attempted [OF assms(3,4)]
    unfolding after_sqs_def sqs_block_def by (rule grows_calls)
  show "Log e \<in> set (logged (snd (createInstance env dto s)))"
    if "sqsService_create env = Some e
         \<or> (sqsService_create env = None \<and> sqsService_find env = Some e)"
    using grows_to_the_end(4) [OF assms(1,2)] channel_block_logged [OF assms(3,4) that]
    unfolding after_sqs_def sqs_block_def by (rule grows_logged)
qed

lemma typebot_attempted_and_logged:
  assumes "reaches_registration env dto" and "webhook_accepted env dto"
    and "typebot_url dto = Some u" and "u \<noteq> []" and "isURL env u"
  shows "TypebotCreate (instanceName dto) True u (typebot dto) (typebot_expire dto)
           (typebot_keyword_finish dto) (typebot_delay_message dto)
           (typebot_unknown_message dto) (typebot_listening_from_me dto)
         \<in> set (calls (snd (createInstance env dto s)))"
    and "typebotService_create env = Some e
         \<Longrightarrow> Log e \<in> set (logged (snd (createInstance env dto s)))"
proof -
  show "TypebotCreate (instanceName dto) True u (typebot dto) (typebot_expire dto)
           (typebot_keyword_finish dto) (typebot_delay_message dto)
           (typebot_unknown_message dto) (typebot_listening_from_me dto)
         \<in> set (calls (snd (createInstance env dto s)))"
    using grows_to_the_end(5) [OF assms(1,2)] typebot_block_attempted [OF assms(3,4,5)]
    unfolding after_typebot_def by (rule grows_calls)
  show "Log e \<in> set (logged (snd (createInstance env dto s)))"
    if "typebotService_create env = Some e"
    using grows_to_the_end(5) [OF assms(1,2)] typebot_block_logged [OF assms(3,4,5) that]
    unfolding after_typebot_def by (rule grows_logged)
qed

lemma return_without_chatwoot_result:
  "fst (return_without_chatwoot env dto inst mk s) = Inr res \<Longrightarrow> \<exists>qr cw. res = mk qr cw"
  by (auto simp: return_without_chatwoot_def Let_def split: if_splits sum.splits)

lemma configure_chatwoot_result:
  "fst (configure_chatwoot env dto inst mk s) = Inr res \<Longrightarrow> \<exists>qr cw. res = mk qr cw"
  by (auto simp: configure_chatwoot_def Let_def split: if_splits option.splits)

lemma configure_and_return_result:
  assumes "fst (configure_and_return env dto inst iid h s) = Inr res"
  shows "\<exists>wa qr cw s1 s2 s3.
           res = result_of dto inst iid wa h
                   (projr (fst (webhook_block env dto s)))
                   (fst (websocket_block env dto s1))
                   (fst (rabbitmq_block env dto s2))
                   (fst (sqs_block env dto s3)) qr cw"
proof -
  obtain r1 s1 where wb: "webhook_block env dto s = (r1, s1)"
    by (cases "webhook_block env dto s")
  obtain r2 s2 where ws: "websocket_block env dto s1 = (r2, s2)"
    by (cases "websocket_block env dto s1")
  obtain r3 s3 where rb: "rabbitmq_block env dto s2 = (r3, s3)"
    by (cases "rabbitmq_block env dto s2")
  obtain r4 s4 where sq: "sqs_block env dto s3 = (r4, s4)"
    by (cases "sqs_block env dto s3")
  have "\<exists>wa qr cw. res = result_of dto inst iid wa h (projr r1) r2 r3 r4 qr cw"
  proof (cases r1)
    case (Inl e)
    then show ?thesis
      using assms by (simp add: configure_and_return_def wb)
  next
    case (Inr webhookEvents)
    show ?thesis
    proof (cases "wa_business_block env dto")
      case (Inl e)
      then show ?thesis
        using assms by (simp add: configure_and_return_def wb ws rb sq Inr Let_def)
    next
      case wa: (Inr wa)
      let ?mk = "result_of dto inst iid wa h webhookEvents r2 r3 r4"
      let ?s7 = "record_call
                   (IntegrationCreate (instanceName dto) (integration dto) (number dto)
                      (token dto))
                   (record_call (SettingsCreate (instanceName dto) (local_settings dto))
                      (typebot_block env dto s4))"
      have "fst (return_without_chatwoot env dto inst ?mk ?s7) = Inr res
            \<or> fst (configure_chatwoot env dto inst ?mk ?s7) = Inr res"
        using assms
        by (simp add: configure_and_return_def wb ws rb sq Inr wa Let_def split: if_splits)
      then have "\<exists>qr cw. res = ?mk qr cw"
        using return_without_chatwoot_result [of env dto inst ?mk ?s7 res]
          configure_chatwoot_result [of env dto inst ?mk ?s7 res]
        by blast
      then show ?thesis
        using Inr by (simp del: split_paired_Ex) blast
    qed
  qed
  then show ?thesis
    using wb ws rb sq by (metis fst_conv)
qed

lemma createInstance_result:
  assumes "fst (createInstance env dto s) = Inr res"
  shows "r_webhook_events (res_webhook res)
           = (case webhook dto of
                None \<Rightarrow> None
              | Some w \<Rightarrow>
                 if w \<noteq> [] \<and> webhookService_create env = None \<and> webhookService_find env = None
                 then Some (case events dto of
                              None \<Rightarrow> webhook_default_events
                            | Some es \<Rightarrow> if length es = 0 then webhook_default_events else es)
                 else None)"
    and "res_websocket res
           = ChannelInfo (websocket_enabled dto)
               (if truthy_bool (websocket_enabled dto) \<and> websocketService_create env = None
                   \<and> websocketService_find env = None
                then map_option (\<lambda>es. if length es = 0 then websocket_default_events else es)
                       (websocket_events dto)
                else None)"
    and "res_rabbitmq res
           = ChannelInfo (rabbitmq_enabled dto)
               (if truthy_bool (rabbitmq_enabled dto) \<and> rabbitmqService_create env = None
                   \<and> rabbitmqService_find env = None
                then map_option (\<lambda>es. if length es = 0 then rabbitmq_default_events else es)
                       (rabbitmq_events dto)
                else None)"
    and "res_sqs res
           = ChannelInfo (sqs_enabled dto)
               (if truthy_bool (sqs_enabled dto) \<and> sqsService_create env = None
                   \<and> sqsService_find env = None
                then map_option (\<lambda>es. if length es = 0 then sqs_default_events else es)
                       (sqs_events dto)
                else None)"
    and "res_typebot res
           = TypebotInfo (truthy_str (typebot_url dto)) (typebot_url dto) (typebot dto)
               (typebot_expire dto) (typebot_keyword_finish dto) (typebot_delay_message dto)
               (typebot_unknown_message dto) (typebot_listening_from_me dto)"
    and "r_status (res_instance res) = ''created''"
proof -
  have ok: "\<not> createInstance_fails env dto"
    using assms createInstance_isl [of env dto s] by simp
  then have reach: "reaches_registration env dto" and accepted: "webhook_accepted env dto"
    by (auto simp: createInstance_fails_def reaches_chatwoot_test_def split: if_splits)
  let ?s = "s\<lparr>waInstances := (waInstances s)(instanceName dto \<mapsto> created_instance env dto),
               calls := calls s @ registration_calls env dto\<rparr>"
  have "fst (createInstance_try env dto s) = Inr res"
    using assms by (auto simp: createInstance_def split: prod.splits sum.splits)
  then have "fst (configure_and_return env dto (created_instance env dto) (v4 env)
                    (auth_generateHash env (instanceName dto) (v4 env) (token dto)) ?s) = Inr res"
    by (simp add: createInstance_try_registered [OF reach])
  then obtain wa qr cw s1 s2 s3 where res:
    "res = result_of dto (created_instance env dto) (v4 env) wa
             (auth_generateHash env (instanceName dto) (v4 env) (token dto))
             (projr (fst (webhook_block env dto ?s)))
             (fst (websocket_block env dto s1))
             (fst (rabbitmq_block env dto s2))
             (fst (sqs_block env dto s3)) qr cw"
    using configure_and_return_result by blast
  show "r_webhook_events (res_webhook res)
           = (case webhook dto of
                None \<Rightarrow> None
              | Some w \<Rightarrow>
                 if w \<noteq> [] \<and> webhookService_create env = None \<and> webhookService_find env = None
                 then Some (case events dto of
                              None \<Rightarrow> webhook_default_events
                            | Some es \<Rightarrow> if length es = 0 then webhook_default_events else es)
                 else None)"
    by (simp add: res result_of_def webhook_block_events [OF accepted])
  show "res_websocket res
           = ChannelInfo (websocket_enabled dto)
               (if truthy_bool (websocket_enabled dto) \<and> websocketService_create env = None
                   \<and> websocketService_find env = None
                then map_option (\<lambda>es. if length es = 0 then websocket_default_events else es)
                       (websocket_events dto)
                else None)"
    by (simp add: res result_of_def websocket_block_def channel_block_events)
  show "res_rabbitmq res
           = ChannelInfo (rabbitmq_enabled dto)
               (if truthy_bool (rabbitmq_enabled dto) \<and> rabbitmqService_create env = None
                   \<and> rabbitmqService_find env = None
                then map_option (\<lambda>es. if length es = 0 then rabbitmq_default_events else es)
                       (rabbitmq_events dto)
                else None)"
    by (simp add: res result_of_def rabbitmq_block_def channel_block_events)
  show "res_sqs res
           = ChannelInfo (sqs_enabled dto)
               (if truthy_bool (sqs_enabled dto) \<and> sqsService_create env = None
                   \<and> sqsService_find env = None
                then map_option (\<lambda>es. if length es = 0 then sqs_default_events else es)
                       (sqs_events dto)
                else None)"
    by (simp add: res result_of_def sqs_block_def channel_block_events)
  show "res_typebot res
           = TypebotInfo (truthy_str (typebot_url dto)) (typebot_url dto) (typebot dto)
               (typebot_expire dto) (typebot_keyword_finish dto) (typebot_delay_message dto)
               (typebot_unknown_message dto) (typebot_listening_from_me dto)"
    by (simp add: res result_of_def)
  show "r_status (res_instance res) = ''created''"
    by (simp add: res result_of_def)
qed

lemma createInstance_fails_channel_services:
  "createInstance_fails
     (env\<lparr>webhookService_create := a1, webhookService_find := a2,
          websocketService_create := a3, websocketService_find := a4,
          rabbitmqService_create := a5, rabbitmqService_find := a6,
          sqsService_create := a7, sqsService_find := a8,
          typebotService_create := a9\<rparr>) dto
   = createInstance_fails env dto"
proof -
  let ?env = "env\<lparr>webhookService_create := a1, webhookService_find := a2,
          websocketService_create := a3, websocketService_find := a4,
          rabbitmqService_create := a5, rabbitmqService_find := a6,
          sqsService_create := a7, sqsService_find := a8,
          typebotService_create := a9\<rparr>"
  have "webhook_accepted ?env dto = webhook_accepted env dto"
    by (simp add: webhook_accepted_def split: option.splits)
  moreover have "chatwoot_fields_valid ?env dto = chatwoot_fields_valid env dto"
    by (simp add: chatwoot_fields_valid_def split: option.splits)
  moreover have "is_business ?env dto = is_business env dto"
    by (simp add: is_business_def)
  moreover from this have "reaches_registration ?env dto = reaches_registration env dto"
    by (simp add: reaches_registration_def)
  moreover have "created_instance ?env dto = created_instance env dto"
    by (simp add: created_instance_def is_business_def)
  moreover have "instance_connectToWhatsapp ?env = instance_connectToWhatsapp env"
    by simp
  ultimately show ?thesis
    by (simp only: createInstance_fails_def reaches_chatwoot_test_def)
qed

text \<open>
  Claim C5, as the code has it. For a request that reaches the channel blocks (lines 92
  to 118 pass and the webhook URL, if any, is well-formed): whether the call returns
  does not depend on what the webhook, websocket, rabbitmq, sqs and typebot services do;
  every requested channel is attempted, and an exception of its \<^verbatim>\<open>create\<close> or
  \<^verbatim>\<open>find\<close> is logged, whatever the other channels did; and a returned result shows an
  event list for a channel exactly when both its \<^verbatim>\<open>create\<close> and its \<^verbatim>\<open>find\<close>
  returned, while the \<open>enabled\<close> properties and the typebot block repeat the request.
\<close>

theorem channel_failures_isolated:
  assumes "reaches_registration env dto" and "webhook_accepted env dto"
  shows
    "isl (fst (createInstance
                 (env\<lparr>webhookService_create := a1, webhookService_find := a2,
                      websocketService_create := a3, websocketService_find := a4,
                      rabbitmqService_create := a5, rabbitmqService_find := a6,
                      sqsService_create := a7, sqsService_find := a8,
                      typebotService_create := a9\<rparr>) dto s))
       = isl (fst (createInstance env dto s))
     \<and> (\<forall>w e. webhook dto = Some w \<and> w \<noteq> [] \<longrightarrow>
           WebhookCreate (instanceName dto) True w
             (case events dto of
                None \<Rightarrow> webhook_default_events
              | Some es \<Rightarrow> if length es = 0 then webhook_default_events else es)
             (webhook_by_events dto) (webhook_base64 dto)
           \<in> set (calls (snd (createInstance env dto s)))
           \<and> (webhookService_create env = Some e
                \<or> (webhookService_create env = None \<and> webhookService_find env = Some e)
              \<longrightarrow> Log e \<in> set (logged (snd (createInstance env dto s)))))
     \<and> (\<forall>es e. truthy_bool (websocket_enabled dto) \<and> websocket_events dto = Some es \<longrightarrow>
           WebsocketCreate (instanceName dto) True
             (if length es = 0 then websocket_default_events else es)
           \<in> set (calls (snd (createInstance env dto s)))
           \<and> (websocketService_create env = Some e
                \<or> (websocketService_create env = None \<and> websocketService_find env = Some e)
              \<longrightarrow> Log e \<in> set (logged (snd (createInstance env dto s)))))
     \<and> (\<forall>es e. truthy_bool (rabbitmq_enabled dto) \<and> rabbitmq_events dto = Some es \<longrightarrow>
           RabbitmqCreate (instanceName dto) True
             (if length es = 0 then rabbitmq_default_events else es)
           \<in> set (calls (snd (createInstance env dto s)))
           \<and> (rabbitmqService_create env = Some e
                \<or> (rabbitmqService_create env = None \<and> rabbitmqService_find env = Some e)
              \<longrightarrow> Log e \<in> set (logged (snd (createInstance env dto s)))))
     \<and> (\<forall>es e. truthy_bool (sqs_enabled dto) \<and> sqs_events dto = Some es \<longrightarrow>
           SqsCreate (instanceName dto) True
             (if length es = 0 then sqs_default_events else es)
           \<in> set (calls (snd (createInstance env dto s)))
           \<and> (sqsService_create env = Some e
                \<or> (sqsService_create env = None \<and> sqsService_find env = Some e)
              \<longrightarrow> Log e \<in> set (logged (snd (createInstance env dto s)))))
     \<and> (\<forall>u e. typebot_url dto = Some u \<and> u \<noteq> [] \<and> isURL env u \<longrightarrow>
           TypebotCreate (instanceName dto) True u (typebot dto) (typebot_expire dto)
             (typebot_keyword_finish dto) (typebot_delay_message dto)
             (typebot_unknown_message dto) (typebot_listening_from_me dto)
           \<in> set (calls (snd (createInstance env dto s)))
           \<and> (typebotService_create env = Some e
              \<longrightarrow> Log e \<in> set (logged (snd (createInstance env dto s)))))
     \<and> (\<forall>res. fst (createInstance env dto s) = Inr res \<longrightarrow>
           r_webhook_events (res_webhook res)
             = (case webhook dto of
                  None \<Rightarrow> None
                | Some w \<Rightarrow>
                   if w \<noteq> [] \<and> webhookService_create env = None
                      \<and> webhookService_find env = None
                   then Some (case events dto of
                                None \<Rightarrow> webhook_default_events
                              | Some es \<Rightarrow>
                                  if length es = 0 then webhook_default_events else es)
                   else None)
           \<and> (\<forall>es. websocket_events dto = Some es \<longrightarrow>
                 res_websocket res
                   = ChannelInfo (websocket_enabled dto)
                       (if truthy_bool (websocket_enabled dto)
                           \<and> websocketService_create env = None
                           \<and> websocketService_find env = None
                        then Some (if length es = 0 then websocket_default_events else es)
                        else None))
           \<and> (\<forall>es. rabbitmq_events dto = Some es \<longrightarrow>
                 res_rabbitmq res
                   = ChannelInfo (rabbitmq_enabled dto)
                       (if truthy_bool (rabbitmq_enabled dto)
                           \<and> rabbitmqService_create env = None
                           \<and> rabbitmqService_find env = None
                        then Some (if length es = 0 then rabbitmq_default_events else es)
                        else None))
           \<and> (\<forall>es. sqs_events dto = Some es \<longrightarrow>
                 res_sqs res
                   = ChannelInfo (sqs_enabled dto)
                       (if truthy_bool (sqs_enabled dto)
                           \<and> sqsService_create env = None
                           \<and> sqsService_find env = None
                        then Some (if length es = 0 then sqs_default_events else es)
                        else None))
           \<and> res_typebot res
               = TypebotInfo (truthy_str (typebot_url dto)) (typebot_url dto) (typebot dto)
                   (typebot_expire dto) (typebot_keyword_finish dto)
                   (typebot_delay_message dto) (typebot_unknown_message dto)
                   (typebot_listening_from_me dto))"
  apply (intro conjI allI impI)
  subgoal by (simp only: createInstance_isl createInstance_fails_channel_services)
  subgoal using assms by (blast intro: webhook_attempted_and_logged(1))
  subgoal using assms by (blast intro: webhook_attempted_and_logged(2))
  subgoal using assms by (blast intro: websocket_attempted_and_logged(1))
  subgoal using assms by (blast intro: websocket_attempted_and_logged(2))
  subgoal using assms by (blast intro: rabbitmq_attempted_and_logged(1))
  subgoal using assms by (blast intro: rabbitmq_attempted_and_logged(2))
  subgoal using assms by (blast intro: sqs_attempted_and_logged(1))
  subgoal using assms by (blast intro: sqs_attempted_and_logged(2))
  subgoal using assms by (blast intro: typebot_attempted_and_logged(1))
  subgoal using assms by (blast intro: typebot_attempted_and_logged(2))
  subgoal by (rule createInstance_result(1))
  subgoal by (simp add: createInstance_result(2))
  subgoal by (simp add: createInstance_result(3))
  subgoal by (simp add: createInstance_result(4))
  subgoal by (rule createInstance_result(5))
  done

theorem channel_failures_isolated_witness:
  "reaches_registration websocket_fails bob_channels
   \<and> webhook_accepted websocket_fails bob_channels
   \<and> websocketService_create websocket_fails = Some engine_error
   \<and> Log engine_error \<in> set (logged (snd (createInstance websocket_fails bob_channels no_instances)))
   \<and> TypebotCreate ''bob'' True ''http://typebot'' None None None None None None
       \<in> set (calls (snd (createInstance websocket_fails bob_channels no_instances)))
   \<and> \<not> isl (fst (createInstance websocket_fails bob_channels no_instances))"
proof -
  have reach: "reaches_registration websocket_fails bob_channels"
    by (simp add: condition_defs websocket_fails_def bob_channels_def input_defs)
  have accepted: "webhook_accepted websocket_fails bob_channels"
    by (simp add: condition_defs websocket_fails_def bob_channels_def input_defs)
  have throws: "websocketService_create websocket_fails = Some engine_error"
    by (simp add: websocket_fails_def)
  have ws: "truthy_bool (websocket_enabled bob_channels)
            \<and> websocket_events bob_channels = Some []"
    by (simp add: bob_channels_def truthy_bool_def)
  have tb: "typebot_url bob_channels = Some ''http://typebot''
            \<and> isURL websocket_fails ''http://typebot''"
    by (simp add: bob_channels_def websocket_fails_def quiet_env_def first_test_of_isURL_def)
  have fields: "instanceName bob_channels = ''bob'' \<and> typebot bob_channels = None
     \<and> typebot_expire bob_channels = None \<and> typebot_keyword_finish bob_channels = None
     \<and> typebot_delay_message bob_channels = None \<and> typebot_unknown_message bob_channels = None
     \<and> typebot_listening_from_me bob_channels = None"
    by (simp add: bob_channels_def request_def)
  have returns: "\<not> isl (fst (createInstance websocket_fails bob_channels no_instances))"
    by (simp add: createInstance_isl condition_defs websocket_fails_def bob_channels_def
        input_defs)
  note iso = channel_failures_isolated [OF reach accepted, where s = no_instances
      and ?a1.0 = None and ?a2.0 = None and ?a3.0 = None and ?a4.0 = None and ?a5.0 = None
      and ?a6.0 = None and ?a7.0 = None and ?a8.0 = None and ?a9.0 = None]
  note websocket_part = iso [THEN conjunct2, THEN conjunct2, THEN conjunct1, rule_format, OF ws]
  note typebot_part = iso [THEN conjunct2, THEN conjunct2, THEN conjunct2, THEN conjunct2,
      THEN conjunct2, THEN conjunct1, rule_format, of "''http://typebot''"]
  from websocket_part throws
  have "Log engine_error
          \<in> set (logged (snd (createInstance websocket_fails bob_channels no_instances)))"
    by blast
  moreover from typebot_part tb fields
  have "TypebotCreate ''bob'' True ''http://typebot'' None None None None None None
          \<in> set (calls (snd (createInstance websocket_fails bob_channels no_instances)))"
    by simp
  ultimately show ?thesis
    using reach accepted throws returns by blast
qed

text \<open>The claim as the spec states it fails in its last part: the result does not show
  which channels succeeded. The call returns the same object whether the typebot service
  threw or not.\<close>

theorem createInstance_result_hides_typebot_failure:
  "fst (createInstance typebot_fails bob_typebot no_instances)
     = fst (createInstance quiet_env bob_typebot no_instances)
   \<and> \<not> isl (fst (createInstance typebot_fails bob_typebot no_instances))
   \<and> typebotService_create typebot_fails = Some engine_error
   \<and> typebotService_create quiet_env = None
   \<and> logged (snd (createInstance typebot_fails bob_typebot no_instances)) = [Log engine_error]"
  by (simp add: createInstance_defs input_defs bob_typebot_def typebot_fails_def)

section \<open>Properties of connectToWhatsapp and deleteInstance\<close>

text \<open>
  Claim C8. While an instance is connecting, \<^verbatim>\<open>connectToWhatsapp\<close> returns the QR code the
  instance holds and changes nothing: no call reaches the engine. On an open instance it
  returns the connection state and changes nothing. A call on a closed instance that
  leaves it connecting calls the engine once, and a second call right after it returns
  the same QR code and leaves the monitor as the first call left it.
\<close>

theorem connectToWhatsapp_idempotent:
  assumes "waInstances s name = Some inst"
  shows "(connectionStatus_state inst = Some ''connecting'' \<longrightarrow>
           connectToWhatsapp env name num s = (qr_value (qrCode inst), s))
       \<and> (connectionStatus_state inst = Some ''open'' \<longrightarrow>
           connectToWhatsapp env name num s
             = (ConnectionStateInfo (StateInfo name (Some ''open'')), s))
       \<and> (\<forall>inst'. connectionStatus_state inst = Some ''close''
             \<and> instance_connectToWhatsapp env inst num = Inr inst'
             \<and> connectionStatus_state inst' = Some ''connecting'' \<longrightarrow>
           connectToWhatsapp env name num' (snd (connectToWhatsapp env name num s))
             = (fst (connectToWhatsapp env name num s), snd (connectToWhatsapp env name num s))
           \<and> fst (connectToWhatsapp env name num s) = qr_value (qrCode inst')
           \<and> calls (snd (connectToWhatsapp env name num s))
               = calls s @ [ConnectToWhatsapp name num])"
  using assms
  by (auto simp: connectToWhatsapp_def connectionState_def registry_read_def monitor_ops Let_def)

theorem connectToWhatsapp_idempotent_witness:
  "waInstances dave_registered ''dave'' = Some dave
   \<and> connectToWhatsapp quiet_env ''dave'' None dave_registered
       = (QrCode ''QR'',
          \<lparr>waInstances = [''dave'' \<mapsto> dave\<lparr>connectionStatus_state := Some ''connecting'',
                                          qrCode := Some ''QR''\<rparr>],
           calls = [ConnectToWhatsapp ''dave'' None], logged = []\<rparr>)
   \<and> connectToWhatsapp quiet_env ''dave'' None
         (snd (connectToWhatsapp quiet_env ''dave'' None dave_registered))
       = (QrCode ''QR'', snd (connectToWhatsapp quiet_env ''dave'' None dave_registered))"
proof -
  have reg: "waInstances dave_registered ''dave'' = Some dave"
    by (simp add: dave_registered_def)
  have first: "connectToWhatsapp quiet_env ''dave'' None dave_registered
       = (QrCode ''QR'',
          \<lparr>waInstances = [''dave'' \<mapsto> dave\<lparr>connectionStatus_state := Some ''connecting'',
                                          qrCode := Some ''QR''\<rparr>],
           calls = [ConnectToWhatsapp ''dave'' None], logged = []\<rparr>)"
    by (simp add: connectToWhatsapp_def registry_read_def dave_registered_def dave_def
        quiet_env_def engine_connects_def qr_value_def monitor_ops)
  have closed: "connectionStatus_state dave = Some ''close''"
    by (simp add: dave_def)
  have engine: "instance_connectToWhatsapp quiet_env dave None
       = Inr (dave\<lparr>connectionStatus_state := Some ''connecting'', qrCode := Some ''QR''\<rparr>)"
    by (simp add: quiet_env_def engine_connects_def)
  from connectToWhatsapp_idempotent [OF reg, of quiet_env None None] closed engine
  have second: "connectToWhatsapp quiet_env ''dave'' None
          (snd (connectToWhatsapp quiet_env ''dave'' None dave_registered))
        = connectToWhatsapp quiet_env ''dave'' None dave_registered"
    by simp
  have "connectToWhatsapp quiet_env ''dave'' None
          (snd (connectToWhatsapp quiet_env ''dave'' None dave_registered))
        = (QrCode ''QR'', snd (connectToWhatsapp quiet_env ''dave'' None dave_registered))"
    by (subst second) (simp add: first)
  with reg first show ?thesis by blast
qed








end
